theory Spec2Isabelle
  imports Main "HOL-Library.AList" "HOL-Library.FSet" "HOL-Library.Sublist"
begin

section \<open>JavaScript values shared by all components\<close>

text \<open>
  A JavaScript \<open>Map\<close> is an association list with distinct keys, in insertion order:
  \<open>get\<close> is \<^const>\<open>map_of\<close>, \<open>set\<close> is \<^const>\<open>AList.update\<close> (an existing key keeps
  its place, a new key goes to the end), \<open>delete\<close> is \<^const>\<open>AList.delete\<close>, and
  iteration walks the list from its head. A \<open>Set\<close> of strings is a finite set.
  Times are milliseconds since the epoch, as integers. Strings are lists of 8-bit
  characters.
\<close>

type_synonym ('k, 'v) jsmap = "('k \<times> 'v) list"

datatype js_error = TypeError | Error string

text \<open>The truthiness test \<open>if (x)\<close> on a value that is a string or undefined.\<close>

fun truthy :: "string option \<Rightarrow> string option" where
  "truthy None = None"
| "truthy (Some s) = (if s = [] then None else Some s)"

section \<open>Session manager (session-manager.js)\<close>

record session =
  s_id :: string
  s_userId :: string
  connectionIds :: "string fset"
  createdAt :: int
  lastActivityAt :: int

record task =
  t_id :: string
  t_userId :: string
  t_botId :: "string option"
  t_title :: "string option"
  t_description :: "string option"
  t_priority :: "string option"
  t_status :: string
  t_createdAt :: int
  t_dueDate :: "string option"

record session_manager =
  sessions :: "(string, session) jsmap"
  userSessions :: "(string, string) jsmap"
  tasks :: "(string, task) jsmap"
  userTasks :: "(string, string fset) jsmap"

definition new_session_manager :: session_manager where
  "new_session_manager = \<lparr>sessions = [], userSessions = [], tasks = [], userTasks = []\<rparr>"

text \<open>
  \<open>createSession(connectionId, userId)\<close>. The identifier that \<open>uuidv4()\<close> would return
  and the clock reading are arguments. Reading \<open>connectionIds\<close> of a session id that
  is indexed but not stored throws a \<open>TypeError\<close> before anything is mutated.
\<close>

definition createSession ::
  "string \<Rightarrow> string \<Rightarrow> string \<Rightarrow> int \<Rightarrow> session_manager \<Rightarrow> js_error + (session \<times> session_manager)" where
  "createSession connectionId userId uuid now sm =
     (case truthy (map_of (userSessions sm) userId) of
        Some session \<Rightarrow>
          (case map_of (sessions sm) session of
             None \<Rightarrow> Inl TypeError
           | Some existingSession \<Rightarrow>
               let existingSession' = existingSession
                     \<lparr>connectionIds := finsert connectionId (connectionIds existingSession),
                      lastActivityAt := now\<rparr>
               in Inr (existingSession',
                       sm\<lparr>sessions := AList.update session existingSession' (sessions sm)\<rparr>))
      | None \<Rightarrow>
          let sessionId = uuid;
              session = \<lparr>s_id = sessionId, s_userId = userId,
                         connectionIds = {|connectionId|},
                         createdAt = now, lastActivityAt = now\<rparr>
          in Inr (session,
                  sm\<lparr>sessions := AList.update sessionId session (sessions sm),
                     userSessions := AList.update userId sessionId (userSessions sm)\<rparr>))"

text \<open>The loop of \<open>endSession\<close> and \<open>getSessionByConnection\<close>: the first stored session
  that holds the connection id.\<close>

fun find_connection :: "string \<Rightarrow> (string, session) jsmap \<Rightarrow> (string \<times> session) option" where
  "find_connection c [] = None"
| "find_connection c ((sessionId, session) # rest) =
     (if c |\<in>| connectionIds session then Some (sessionId, session)
      else find_connection c rest)"

definition endSession :: "string \<Rightarrow> session_manager \<Rightarrow> session_manager" where
  "endSession connectionId sm =
     (case find_connection connectionId (sessions sm) of
        None \<Rightarrow> sm
      | Some (sessionId, session) \<Rightarrow>
          let session' = session\<lparr>connectionIds := connectionIds session |-| {|connectionId|}\<rparr>
          in if connectionIds session' = {||}
             then sm\<lparr>sessions := AList.delete sessionId (sessions sm),
                     userSessions := AList.delete (s_userId session) (userSessions sm)\<rparr>
             else sm\<lparr>sessions := AList.update sessionId session' (sessions sm)\<rparr>)"

definition getSessionByConnection :: "session_manager \<Rightarrow> string \<Rightarrow> session option" where
  "getSessionByConnection sm connectionId =
     map_option snd (find_connection connectionId (sessions sm))"

definition getSessionByUser :: "session_manager \<Rightarrow> string \<Rightarrow> session option" where
  "getSessionByUser sm userId =
     (case truthy (map_of (userSessions sm) userId) of
        Some sessionId \<Rightarrow> map_of (sessions sm) sessionId
      | None \<Rightarrow> None)"

definition getActiveSessionCount :: "session_manager \<Rightarrow> nat" where
  "getActiveSessionCount sm = length (sessions sm)"

text \<open>
  A run of the session manager: the calls made on it, in order. Each \<open>createSession\<close>
  call carries the identifier that \<open>uuidv4()\<close> returns should the call create a session.
  A call that throws leaves the manager as it was; \<open>calls_ok\<close> says that no call threw.
\<close>

datatype sm_call = CreateSession string string string int | EndSession string

fun run_calls :: "sm_call list \<Rightarrow> session_manager \<Rightarrow> session_manager" where
  "run_calls [] sm = sm"
| "run_calls (CreateSession connectionId userId uuid now # cs) sm =
     (case createSession connectionId userId uuid now sm of
        Inl e \<Rightarrow> run_calls cs sm
      | Inr (s, sm') \<Rightarrow> run_calls cs sm')"
| "run_calls (EndSession connectionId # cs) sm = run_calls cs (endSession connectionId sm)"

fun uuids_of :: "sm_call list \<Rightarrow> string list" where
  "uuids_of [] = []"
| "uuids_of (CreateSession connectionId userId uuid now # cs) = uuid # uuids_of cs"
| "uuids_of (EndSession connectionId # cs) = uuids_of cs"

fun calls_ok :: "sm_call list \<Rightarrow> session_manager \<Rightarrow> bool" where
  "calls_ok [] sm = True"
| "calls_ok (CreateSession connectionId userId uuid now # cs) sm =
     (case createSession connectionId userId uuid now sm of
        Inl e \<Rightarrow> False
      | Inr (s, sm') \<Rightarrow> calls_ok cs sm')"
| "calls_ok (EndSession connectionId # cs) sm = calls_ok cs (endSession connectionId sm)"

definition two_devices_sm :: session_manager where
  "two_devices_sm =
     run_calls [CreateSession ''c1'' ''alice'' ''s1'' 1000,
                CreateSession ''c2'' ''alice'' ''s2'' 1500,
                CreateSession ''c3'' ''bob'' ''s3'' 2000] new_session_manager"

definition reauth_sm :: session_manager where
  "reauth_sm =
     run_calls [CreateSession ''c3'' ''alice'' ''s1'' 1000,
                CreateSession ''c3'' ''bob'' ''s2'' 2000] new_session_manager"

definition index_entry_ok :: "session_manager \<Rightarrow> string \<times> string \<Rightarrow> bool" where
  "index_entry_ok sm e =
     (case map_of (sessions sm) (snd e) of
        None \<Rightarrow> False
      | Some S \<Rightarrow> s_userId S = fst e \<and> connectionIds S \<noteq> {||})"

definition sm_consistent :: "session_manager \<Rightarrow> bool" where
  "sm_consistent sm \<longleftrightarrow>
     list_all (index_entry_ok sm) (userSessions sm)
     \<and> distinct (map (\<lambda>e. s_userId (snd e)) (sessions sm))"

definition index_inv :: "(string \<rightharpoonup> session) \<Rightarrow> (string \<rightharpoonup> string) \<Rightarrow> bool" where
  "index_inv m n \<longleftrightarrow>
     (\<forall>k S. m k = Some S \<longrightarrow>
        k \<noteq> [] \<and> connectionIds S \<noteq> {||} \<and> n (s_userId S) = Some k)
     \<and> (\<forall>u k. n u = Some k \<longrightarrow> (\<exists>S. m k = Some S \<and> s_userId S = u))"

definition sm_inv :: "session_manager \<Rightarrow> bool" where
  "sm_inv sm \<longleftrightarrow>
     distinct (map fst (sessions sm)) \<and> distinct (map fst (userSessions sm))
     \<and> index_inv (map_of (sessions sm)) (map_of (userSessions sm))"

section \<open>Tunnel manager (tunnel-manager.js)\<close>

text \<open>
  Strings hold code units below 256. \<open>is_space\<close> is the regular-expression class
  \<open>\s\<close> on them: tab, line feed, vertical tab, form feed, carriage return, space and
  no-break space.
\<close>

definition is_space :: "char \<Rightarrow> bool" where
  "is_space c = ((of_char c :: nat) \<in> {9, 10, 11, 12, 13, 32, 160})"

definition non_space_run :: "string \<Rightarrow> string" where
  "non_space_run s = takeWhile (\<lambda>c. \<not> is_space c) s"

text \<open>
  \<open>output.match(/start proxy success\. url = (http[^\s]+)/)\<close>: the first capture
  group of the leftmost match, if there is one. The group is \<open>http\<close> followed by a
  longest non-empty run of characters that are not white space.
\<close>

definition frp_marker :: string where
  "frp_marker = ''start proxy success. url = ''"

fun match_frp_url :: "string \<Rightarrow> string option" where
  "match_frp_url [] = None"
| "match_frp_url (c # cs) =
     (if prefix (frp_marker @ ''http'') (c # cs)
         \<and> non_space_run (drop (length frp_marker + 4) (c # cs)) \<noteq> []
      then Some (''http'' @ non_space_run (drop (length frp_marker + 4) (c # cs)))
      else match_frp_url cs)"

declare match_frp_url.simps [simp del]

text \<open>
  \<open>output.match(/url[:\s]+(https:\/\/[^\s]+)/i)\<close>, letters compared without case.
\<close>

definition lower :: "char \<Rightarrow> char" where
  "lower c =
     (case map_of (zip ''ABCDEFGHIJKLMNOPQRSTUVWXYZ'' ''abcdefghijklmnopqrstuvwxyz'') c of
        None \<Rightarrow> c
      | Some l \<Rightarrow> l)"

definition prefix_ci :: "string \<Rightarrow> string \<Rightarrow> bool" where
  "prefix_ci p s = prefix (map lower p) (map lower s)"

definition colon_space_run :: "string \<Rightarrow> string" where
  "colon_space_run s = takeWhile (\<lambda>c. c = CHR '':'' \<or> is_space c) s"

fun match_tunnelto_url :: "string \<Rightarrow> string option" where
  "match_tunnelto_url [] = None"
| "match_tunnelto_url (c # cs) =
     (let sep = colon_space_run (drop 3 (c # cs));
          rest = drop (3 + length sep) (c # cs)
      in if prefix_ci ''url'' (c # cs) \<and> sep \<noteq> [] \<and> prefix_ci ''https://'' rest
            \<and> non_space_run (drop 8 rest) \<noteq> []
         then Some (take 8 rest @ non_space_run (drop 8 rest))
         else match_tunnelto_url cs)"

declare match_tunnelto_url.simps [simp del]

text \<open>A number in a template literal, for the non-negative integers used as ports.\<close>

fun dec_digits :: "nat \<Rightarrow> string" where
  "dec_digits n =
     (if n < 10 then [''0123456789'' ! n]
      else dec_digits (n div 10) @ [''0123456789'' ! (n mod 10)])"

definition num_str :: "int \<Rightarrow> string" where
  "num_str i = (if i < 0 then CHR ''-'' # dec_digits (nat (- i)) else dec_digits (nat i))"

record credentials =
  serverAddr :: "string option"
  serverPort :: "int option"
  authToken :: "string option"
  cr_apiKey :: "string option"

record tunnel_config =
  tc_provider :: string
  tc_enabled :: bool
  localPort :: int
  tc_credentials :: credentials
  tc_publicUrl :: "string option"

text \<open>The \<open>customConfig\<close> argument of \<open>start\<close>: the fields it overrides.\<close>

record custom_config =
  cc_provider :: "string option"
  cc_enabled :: "bool option"
  cc_localPort :: "int option"
  cc_credentials :: "credentials option"
  cc_publicUrl :: "string option"

record frp_settings =
  frp_enabled :: bool
  server_addr :: "string option"
  server_port :: "int option"
  auth_token :: "string option"

record tailscale_settings =
  tailscale_enabled :: bool
  dns_name :: string
  serve_path :: string

record tunnelto_settings =
  tunnelto_enabled :: bool
  api_key :: "string option"

record tunnels_config =
  default_provider :: string
  frp :: frp_settings
  tailscale :: tailscale_settings
  tunnelto :: tunnelto_settings

text \<open>
  What the manager observes of a spawned child process while it waits: the process id,
  the chunks of standard output delivered as \<open>data\<close> events, whether \<open>close\<close> was
  emitted, and the fields \<open>killed\<close>, \<open>exitCode\<close> and \<open>signalCode\<close> of the handle
  when the wait ends. A child that is still running has neither an exit code nor a
  signal code.
\<close>

record child_run =
  pid :: "nat option"
  stdout_chunks :: "string list"
  close_emitted :: bool
  killed :: bool
  exitCode :: "int option"
  signalCode :: "string option"

text \<open>The outcome of the \<open>tailscale status\<close> check that precedes \<open>tailscale serve\<close>.\<close>

datatype check_outcome = CheckClosed int | CheckError string | CheckTimeout

record start_env =
  env_uuid1 :: string
  env_uuid2 :: string
  spawn_time :: int
  return_time :: int
  status_check :: check_outcome
  child :: child_run

record tunnel_process =
  tp_id :: string
  tp_provider :: string
  tp_process :: child_run
  tp_config :: tunnel_config
  tp_startedAt :: int

record tunnel_status =
  ts_provider :: string
  running :: bool
  ts_publicUrl :: "string option"
  ts_localPort :: int
  ts_startedAt :: "int option"

text \<open>
  The manager: its configuration, the map \<open>activeTunnels\<close>, and a ledger of what it
  did to the outside: the processes it spawned (command and arguments), the files it
  wrote and the signals it sent.
\<close>

record tunnel_manager =
  config :: tunnels_config
  activeTunnels :: "(string, tunnel_process) jsmap"
  spawned :: "(string \<times> string list) list"
  written :: "(string \<times> string) list"
  signalled :: "(nat \<times> string) list"

definition getStatus :: "tunnel_manager \<Rightarrow> string \<Rightarrow> tunnel_status" where
  "getStatus tm provider =
     (case map_of (activeTunnels tm) provider of
        None \<Rightarrow> \<lparr>ts_provider = provider, running = False, ts_publicUrl = None,
                  ts_localPort = 0, ts_startedAt = None\<rparr>
      | Some tunnel \<Rightarrow>
          \<lparr>ts_provider = provider, running = True,
           ts_publicUrl = tc_publicUrl (tp_config tunnel),
           ts_localPort = localPort (tp_config tunnel),
           ts_startedAt = Some (tp_startedAt tunnel)\<rparr>)"

text \<open>
  \<open>buildConfig\<close>: the base configuration of the provider with the fields of
  \<open>customConfig\<close> written over it. A provider without a base configuration gives an
  object that \<open>start\<close> never reads, here \<open>None\<close>.
\<close>

definition baseConfig :: "tunnels_config \<Rightarrow> string \<Rightarrow> tunnel_config option" where
  "baseConfig cfg provider =
     (if provider = ''frp'' then
        Some \<lparr>tc_provider = ''frp'', tc_enabled = frp_enabled (frp cfg), localPort = 3000,
              tc_credentials = \<lparr>serverAddr = server_addr (frp cfg),
                                 serverPort = server_port (frp cfg),
                                 authToken = auth_token (frp cfg), cr_apiKey = None\<rparr>,
              tc_publicUrl = None\<rparr>
      else if provider = ''tailscale'' then
        Some \<lparr>tc_provider = ''tailscale'', tc_enabled = tailscale_enabled (tailscale cfg),
              localPort = 3000,
              tc_credentials = \<lparr>serverAddr = None, serverPort = None,
                                 authToken = None, cr_apiKey = None\<rparr>,
              tc_publicUrl = None\<rparr>
      else if provider = ''tunnelto'' then
        Some \<lparr>tc_provider = ''tunnelto'', tc_enabled = tunnelto_enabled (tunnelto cfg),
              localPort = 3000,
              tc_credentials = \<lparr>serverAddr = None, serverPort = None, authToken = None,
                                 cr_apiKey = api_key (tunnelto cfg)\<rparr>,
              tc_publicUrl = None\<rparr>
      else None)"

definition override :: "tunnel_config \<Rightarrow> custom_config \<Rightarrow> tunnel_config" where
  "override base c =
     \<lparr>tc_provider = (case cc_provider c of None \<Rightarrow> tc_provider base | Some v \<Rightarrow> v),
      tc_enabled = (case cc_enabled c of None \<Rightarrow> tc_enabled base | Some v \<Rightarrow> v),
      localPort = (case cc_localPort c of None \<Rightarrow> localPort base | Some v \<Rightarrow> v),
      tc_credentials = (case cc_credentials c of None \<Rightarrow> tc_credentials base | Some v \<Rightarrow> v),
      tc_publicUrl = (case cc_publicUrl c of None \<Rightarrow> tc_publicUrl base | Some v \<Rightarrow> Some v)\<rparr>"

definition buildConfig ::
  "tunnel_manager \<Rightarrow> string \<Rightarrow> custom_config option \<Rightarrow> tunnel_config option" where
  "buildConfig tm provider customConfig =
     (case baseConfig (config tm) provider of
        None \<Rightarrow> None
      | Some base \<Rightarrow>
          (case customConfig of None \<Rightarrow> Some base | Some c \<Rightarrow> Some (override base c)))"

definition generateFrpConfig :: "tunnel_config \<Rightarrow> string \<Rightarrow> string" where
  "generateFrpConfig cfg instanceId =
     (let creds = tc_credentials cfg
      in ''[common]'' @ [CHR 0x0A]
         @ ''server_addr = ''
         @ (case truthy (serverAddr creds) of None \<Rightarrow> ''localhost'' | Some a \<Rightarrow> a)
         @ [CHR 0x0A]
         @ ''server_port = ''
         @ num_str (case serverPort creds of
                      None \<Rightarrow> 7000 | Some p \<Rightarrow> if p = 0 then 7000 else p)
         @ [CHR 0x0A]
         @ (case truthy (authToken creds) of
              None \<Rightarrow> []
            | Some t \<Rightarrow> ''token = '' @ t @ [CHR 0x0A])
         @ [CHR 0x0A]
         @ ''[tunnels2bots-'' @ instanceId @ '']'' @ [CHR 0x0A]
         @ ''type = tcp'' @ [CHR 0x0A]
         @ ''local_ip = 127.0.0.1'' @ [CHR 0x0A]
         @ ''local_port = '' @ num_str (localPort cfg) @ [CHR 0x0A]
         @ ''remote_port = 0  # Let server assign port'' @ [CHR 0x0A])"

text \<open>
  The \<open>data\<close> handler of a provider that reads its URL from the output: each chunk
  that matches overwrites \<open>publicUrl\<close>.
\<close>

fun scan_chunks :: "(string \<Rightarrow> string option) \<Rightarrow> string option \<Rightarrow> string list \<Rightarrow> string option" where
  "scan_chunks m url [] = url"
| "scan_chunks m url (output # rest) =
     (case m output of
        None \<Rightarrow> scan_chunks m url rest
      | Some urlMatch \<Rightarrow> scan_chunks m (Some urlMatch) rest)"

text \<open>The \<open>close\<close> handler of a child: the provider leaves \<open>activeTunnels\<close>.\<close>

definition on_close :: "string \<Rightarrow> child_run \<Rightarrow> tunnel_manager \<Rightarrow> tunnel_manager" where
  "on_close provider proc tm =
     (if close_emitted proc
      then tm\<lparr>activeTunnels := AList.delete provider (activeTunnels tm)\<rparr>
      else tm)"

text \<open>
  \<open>startFrpTunnel\<close>. The events of the child during the two-second wait are handled
  first; then the handle is inspected.
\<close>

definition startFrpTunnel ::
  "tunnel_config \<Rightarrow> start_env \<Rightarrow> tunnel_manager \<Rightarrow> (js_error + tunnel_status) \<times> tunnel_manager" where
  "startFrpTunnel cfg env tm =
     (let instanceId = take 8 (env_uuid1 env);
          frpcConfig = generateFrpConfig cfg instanceId;
          configPath = ''/tmp/frpc-'' @ instanceId @ ''.ini'';
          proc = child env;
          tm1 = tm\<lparr>written := written tm @ [(configPath, frpcConfig)],
                   spawned := spawned tm @ [(''frpc'', [''-c'', configPath])]\<rparr>;
          publicUrl = scan_chunks match_frp_url
                        (Some (''http://'' @ instanceId @ ''.frp.local'')) (stdout_chunks proc);
          tunnelProcess = \<lparr>tp_id = instanceId, tp_provider = ''frp'', tp_process = proc,
                            tp_config = cfg\<lparr>tc_publicUrl := publicUrl\<rparr>,
                            tp_startedAt = spawn_time env\<rparr>;
          tm2 = on_close ''frp'' proc tm1
      in if killed proc \<or> exitCode proc \<noteq> None
         then (Inl (Error ''frpc process failed to start''), tm2)
         else (Inr \<lparr>ts_provider = ''frp'', running = True, ts_publicUrl = publicUrl,
                     ts_localPort = localPort cfg, ts_startedAt = Some (return_time env)\<rparr>,
               tm2\<lparr>activeTunnels := AList.update ''frp'' tunnelProcess (activeTunnels tm2)\<rparr>))"

definition startTailscaleTunnel ::
  "tunnel_config \<Rightarrow> start_env \<Rightarrow> tunnel_manager \<Rightarrow> (js_error + tunnel_status) \<times> tunnel_manager" where
  "startTailscaleTunnel cfg env tm =
     (let tm1 = tm\<lparr>spawned := spawned tm @ [(''tailscale'', [''status''])]\<rparr>
      in case status_check env of
           CheckError msg \<Rightarrow> (Inl (Error msg), tm1)
         | CheckTimeout \<Rightarrow> (Inl (Error ''Tailscale check timeout''), tm1)
         | CheckClosed code \<Rightarrow>
             if code \<noteq> 0 then (Inl (Error ''Tailscale not available''), tm1)
             else
               let dnsName = dns_name (tailscale (config tm));
                   servePath = serve_path (tailscale (config tm));
                   proc = child env;
                   tm2 = tm1\<lparr>spawned := spawned tm1 @
                           [(''tailscale'', [''serve'', ''--bg'', ''--yes'', ''--https'', ''443'',
                              ''--to'', ''localhost:'' @ num_str (localPort cfg) @ servePath])]\<rparr>;
                   publicUrl = Some (''https://'' @ dnsName @ ''.tailnet.ts.net'' @ servePath);
                   tunnelProcess = \<lparr>tp_id = take 8 (env_uuid1 env), tp_provider = ''tailscale'',
                                     tp_process = proc,
                                     tp_config = cfg\<lparr>tc_publicUrl := publicUrl\<rparr>,
                                     tp_startedAt = spawn_time env\<rparr>;
                   tm3 = on_close ''tailscale'' proc tm2
               in (Inr \<lparr>ts_provider = ''tailscale'', running = True, ts_publicUrl = publicUrl,
                         ts_localPort = localPort cfg, ts_startedAt = Some (return_time env)\<rparr>,
                   tm3\<lparr>activeTunnels :=
                          AList.update ''tailscale'' tunnelProcess (activeTunnels tm3)\<rparr>))"

definition startTunneltoTunnel ::
  "tunnel_config \<Rightarrow> start_env \<Rightarrow> tunnel_manager \<Rightarrow> (js_error + tunnel_status) \<times> tunnel_manager" where
  "startTunneltoTunnel cfg env tm =
     (let creds = tc_credentials cfg;
          args = [''dev'', ''--port'', num_str (localPort cfg)]
                 @ (case truthy (cr_apiKey creds) of None \<Rightarrow> [] | Some k \<Rightarrow> [''--auth'', k]);
          subdomain = ''t2b-'' @ take 8 (env_uuid1 env);
          args' = args @ [''--subdomain'', subdomain];
          proc = child env;
          tm1 = tm\<lparr>spawned := spawned tm @ [(''tunnelto'', args')]\<rparr>;
          publicUrl = scan_chunks match_tunnelto_url
                        (Some (''https://'' @ subdomain @ ''.tunnelto.dev'')) (stdout_chunks proc);
          tunnelProcess = \<lparr>tp_id = take 8 (env_uuid2 env), tp_provider = ''tunnelto'',
                            tp_process = proc,
                            tp_config = cfg\<lparr>tc_publicUrl := publicUrl\<rparr>,
                            tp_startedAt = spawn_time env\<rparr>;
          tm2 = on_close ''tunnelto'' proc tm1
      in (Inr \<lparr>ts_provider = ''tunnelto'', running = True, ts_publicUrl = publicUrl,
                ts_localPort = localPort cfg, ts_startedAt = Some (return_time env)\<rparr>,
          tm2\<lparr>activeTunnels := AList.update ''tunnelto'' tunnelProcess (activeTunnels tm2)\<rparr>))"

text \<open>\<open>start(provider, customConfig)\<close>.\<close>

definition start ::
  "string \<Rightarrow> custom_config option \<Rightarrow> start_env \<Rightarrow> tunnel_manager
     \<Rightarrow> (js_error + tunnel_status) \<times> tunnel_manager" where
  "start provider customConfig env tm =
     (case map_of (activeTunnels tm) provider of
        Some existing \<Rightarrow> (Inr (getStatus tm provider), tm)
      | None \<Rightarrow>
          (case buildConfig tm provider customConfig of
             None \<Rightarrow> (Inl (Error (''Unknown tunnel provider: '' @ provider)), tm)
           | Some cfg \<Rightarrow>
               if provider = ''frp'' then startFrpTunnel cfg env tm
               else if provider = ''tailscale'' then startTailscaleTunnel cfg env tm
               else startTunneltoTunnel cfg env tm))"

text \<open>
  \<open>stop(provider)\<close>. The signal goes to the process id, when the child has one.
  \<open>process.kill\<close> throws when no process has that id; the call then fails before the
  provider is removed from \<open>activeTunnels\<close>. Which process ids exist is a parameter.
\<close>

definition stop ::
  "(nat \<Rightarrow> bool) \<Rightarrow> string \<Rightarrow> tunnel_manager \<Rightarrow> (js_error + unit) \<times> tunnel_manager" where
  "stop process_exists provider tm =
     (case map_of (activeTunnels tm) provider of
        None \<Rightarrow> (Inr (), tm)
      | Some tunnel \<Rightarrow>
          (case pid (tp_process tunnel) of
             None \<Rightarrow> (Inr (), tm\<lparr>activeTunnels := AList.delete provider (activeTunnels tm)\<rparr>)
           | Some p \<Rightarrow>
               if p = 0
               then (Inr (), tm\<lparr>activeTunnels := AList.delete provider (activeTunnels tm)\<rparr>)
               else if process_exists p
               then (Inr (), tm\<lparr>signalled := signalled tm @ [(p, ''SIGTERM'')],
                               activeTunnels := AList.delete provider (activeTunnels tm)\<rparr>)
               else (Inl (Error ''kill ESRCH''), tm)))"

text \<open>Sample configurations, child processes and managers for the tunnel properties.\<close>

definition demo_tunnels_config :: tunnels_config where
  "demo_tunnels_config =
     \<lparr>default_provider = ''frp'',
      frp = \<lparr>frp_enabled = True, server_addr = Some ''frp.example.org'',
              server_port = Some 7000, auth_token = Some ''secret''\<rparr>,
      tailscale = \<lparr>tailscale_enabled = False, dns_name = ''gateway'', serve_path = ''/ws''\<rparr>,
      tunnelto = \<lparr>tunnelto_enabled = False, api_key = None\<rparr>\<rparr>"

definition demo_frp_config :: tunnel_config where
  "demo_frp_config =
     \<lparr>tc_provider = ''frp'', tc_enabled = True, localPort = 3000,
      tc_credentials = \<lparr>serverAddr = Some ''frp.example.org'', serverPort = Some 7000,
                         authToken = Some ''secret'', cr_apiKey = None\<rparr>,
      tc_publicUrl = None\<rparr>"

definition new_tunnel_manager :: "tunnels_config \<Rightarrow> tunnel_manager" where
  "new_tunnel_manager cfg =
     \<lparr>config = cfg, activeTunnels = [], spawned = [], written = [], signalled = []\<rparr>"

definition child_with :: "string list \<Rightarrow> bool \<Rightarrow> int option \<Rightarrow> child_run" where
  "child_with chunks closed code =
     \<lparr>pid = Some 4242, stdout_chunks = chunks, close_emitted = closed, killed = False,
      exitCode = code, signalCode = None\<rparr>"

definition env_with :: "child_run \<Rightarrow> start_env" where
  "env_with c =
     \<lparr>env_uuid1 = ''abcd1234-0000-4000-8000-000000000000'',
      env_uuid2 = ''ffff0000-0000-4000-8000-000000000000'',
      spawn_time = 1000, return_time = 3000, status_check = CheckClosed 0, child = c\<rparr>"

definition frp_running_tm :: tunnel_manager where
  "frp_running_tm =
     snd (start ''frp'' None
            (env_with (child_with [''start proxy success. url = http://1.2.3.4:6001''] False None))
            (new_tunnel_manager demo_tunnels_config))"

section \<open>Bot registry (bot-registry.js)\<close>

record bot =
  b_id :: string
  b_userId :: string
  b_name :: string
  b_description :: string
  b_type :: string
  b_status :: string

record bot_registry =
  bots :: "(string, bot) jsmap"
  userBots :: "(string, string list) jsmap"

text \<open>\<open>getBot(botId)\<close>; an absent \<open>botId\<close> is looked up as \<open>undefined\<close> and not found.\<close>

definition getBot :: "bot_registry \<Rightarrow> string option \<Rightarrow> bot option" where
  "getBot reg botId = (case botId of None \<Rightarrow> None | Some b \<Rightarrow> map_of (bots reg) b)"

definition getUserBots :: "bot_registry \<Rightarrow> string \<Rightarrow> bot list" where
  "getUserBots reg userId =
     (case map_of (userBots reg) userId of
        None \<Rightarrow> []
      | Some botIds \<Rightarrow> List.map_filter (\<lambda>b. getBot reg (Some b)) botIds)"

section \<open>Authentication service (services/auth-service.ts)\<close>

text \<open>\<open>split(d)\<close> on a one-character separator.\<close>

fun split_on :: "char \<Rightarrow> string \<Rightarrow> string list" where
  "split_on d [] = [[]]"
| "split_on d (c # cs) =
     (if c = d then [] # split_on d cs
      else (case split_on d cs of [] \<Rightarrow> [[c]] | p # ps \<Rightarrow> (c # p) # ps))"

record api_key_entry =
  k_userId :: string
  k_permissions :: "string list"
  k_name :: string

record api_key_validation =
  valid :: bool
  v_userId :: "string option"
  v_permissions :: "string list option"

text \<open>
  The service holds the issued keys by their hash. The hash (SHA-256, in hexadecimal) is
  a parameter of the functions that use it.
\<close>

record auth_service =
  apiKeys :: "(string, api_key_entry) jsmap"

definition extractUserIdFromKey :: "string \<Rightarrow> string option" where
  "extractUserIdFromKey key =
     (let parts = split_on CHR ''_'' key
      in if 3 \<le> length parts then Some (parts ! 1) else None)"

definition validateApiKey :: "(string \<Rightarrow> string) \<Rightarrow> auth_service \<Rightarrow> string \<Rightarrow> api_key_validation" where
  "validateApiKey sha256 svc apiKey =
     (if apiKey = [] \<or> length apiKey < 16
      then \<lparr>valid = False, v_userId = None, v_permissions = None\<rparr>
      else
        (case map_of (apiKeys svc) (sha256 apiKey) of
           Some storedKey \<Rightarrow>
             \<lparr>valid = True, v_userId = Some (k_userId storedKey),
              v_permissions = Some (k_permissions storedKey)\<rparr>
         | None \<Rightarrow>
             if prefix ''t2b_'' apiKey \<and> 24 \<le> length apiKey
             then (case truthy (extractUserIdFromKey apiKey) of
                     Some userId \<Rightarrow>
                       \<lparr>valid = True, v_userId = Some userId,
                        v_permissions = Some [''read'', ''write'', ''bots'']\<rparr>
                   | None \<Rightarrow> \<lparr>valid = False, v_userId = None, v_permissions = None\<rparr>)
             else \<lparr>valid = False, v_userId = None, v_permissions = None\<rparr>))"

section \<open>Message router (message-router.js)\<close>

record message =
  m_id :: string
  m_from :: string
  m_to :: string
  m_text :: "string option"
  m_timestamp :: int
  m_replyTo :: "string option"
  m_messageId :: string

definition is_hex :: "char \<Rightarrow> bool" where
  "is_hex c = (c \<in> set ''0123456789abcdefABCDEF'')"

text \<open>The pattern of a UUID: groups of 8, 4, 4, 4 and 12 hexadecimal digits.\<close>

definition is_uuid :: "string \<Rightarrow> bool" where
  "is_uuid s =
     (length s = 36
      \<and> list_all is_hex (take 8 s) \<and> s ! 8 = CHR ''-''
      \<and> list_all is_hex (take 4 (drop 9 s)) \<and> s ! 13 = CHR ''-''
      \<and> list_all is_hex (take 4 (drop 14 s)) \<and> s ! 18 = CHR ''-''
      \<and> list_all is_hex (take 4 (drop 19 s)) \<and> s ! 23 = CHR ''-''
      \<and> list_all is_hex (drop 24 s))"

definition isBotId :: "string \<Rightarrow> bool" where
  "isBotId i = (prefix ''bot_'' i \<or> is_uuid i)"

section \<open>WebSocket server (server.js)\<close>

datatype ready_state = CONNECTING | OPEN | CLOSING | CLOSED

text \<open>
  A socket with the fields the server attaches to it. \<open>ws_userId\<close> is undefined
  until the connection authenticates.
\<close>

record connection =
  ws_connectionId :: string
  ws_userId :: "string option"
  subscribedBots :: "string fset"
  lastActivity :: int
  readyState :: ready_state

text \<open>
  A received frame: its \<open>type\<close>, its \<open>data\<close> object when it has one (fields with
  string values), and its \<open>id\<close>. A text that does not parse as JSON is no frame.
\<close>

record frame =
  f_type :: string
  f_data :: "(string \<times> string) list option"
  f_id :: "string option"

datatype err_code = Num int | Str string

datatype payload =
    ErrorData err_code string
  | Pong int
  | AuthError string
  | AuthOk string string string
  | BotsList "bot list"
  | Subscribed "string option"
  | Unsubscribed "string option"
  | TaskStatus string string
  | MessageAck string string int
  | Ack string string
  | BotMessage string string string string int
  | ConnectionsStatus nat nat
  | ServerStatus nat nat
  | TimeoutStatus

record out_frame =
  o_type :: string
  o_data :: payload
  o_timestamp :: "int option"
  o_id :: "string option"

text \<open>
  What a handler does to the outside: frames sent on a socket, \<open>ws.close(code, reason)\<close>
  and \<open>ws.ping()\<close> calls, and the hand-over of a message to a bot or to a user.
\<close>

datatype action =
    Send string out_frame
  | Close string int string
  | Ping string
  | ToBot string message
  | ToUser string message

record sessions_config =
  timeout :: int
  max_per_user :: nat
  heartbeat_interval :: int

text \<open>
  The server: its components, the socket objects by connection id, and the keys of the
  map \<open>connections\<close> in insertion order (each key maps to the socket of that id).
\<close>

record server =
  srv_sessions :: sessions_config
  jwt_expiry :: string
  sessionManager :: session_manager
  botRegistry :: bot_registry
  authService :: auth_service
  sockets :: "(string, connection) jsmap"
  connections :: "string list"

text \<open>
  What a call reads from outside the server: the clock, the identifiers \<open>uuidv4()\<close>
  returns, the hash function, and the verification of a signed token (the \<open>userId\<close>
  of its payload when the signature and the expiry are good).
\<close>

record call_env =
  env_now :: int
  uuid_a :: string
  uuid_b :: string
  sha256_hex :: "string \<Rightarrow> string"
  jwt_verify :: "string \<Rightarrow> string option"

definition sendFrame :: "connection \<Rightarrow> out_frame \<Rightarrow> action list" where
  "sendFrame ws fr = (if readyState ws = OPEN then [Send (ws_connectionId ws) fr] else [])"

definition sendError :: "connection \<Rightarrow> int \<Rightarrow> string \<Rightarrow> int \<Rightarrow> action list" where
  "sendError ws code msg t =
     sendFrame ws \<lparr>o_type = ''error'', o_data = ErrorData (Num code) msg,
                   o_timestamp = Some t, o_id = None\<rparr>"

definition field :: "(string \<times> string) list \<Rightarrow> string \<Rightarrow> string option" where
  "field d k = map_of d k"

definition set_socket :: "connection \<Rightarrow> server \<Rightarrow> server" where
  "set_socket ws st = st\<lparr>sockets := AList.update (ws_connectionId ws) ws (sockets st)\<rparr>"

definition authenticated :: "connection \<Rightarrow> string option" where
  "authenticated ws = truthy (ws_userId ws)"

text \<open>The sockets that the map \<open>connections\<close> holds, in its order.\<close>

definition connected_sockets :: "server \<Rightarrow> connection list" where
  "connected_sockets st = List.map_filter (\<lambda>i. map_of (sockets st) i) (connections st)"

definition getUserConnections :: "server \<Rightarrow> string option \<Rightarrow> connection list" where
  "getUserConnections st userId = filter (\<lambda>ws. ws_userId ws = userId) (connected_sockets st)"

definition getUniqueUserCount :: "server \<Rightarrow> nat" where
  "getUniqueUserCount st =
     length (remdups (List.map_filter (\<lambda>ws. authenticated ws) (connected_sockets st)))"

text \<open>\<open>SessionManager.createTask\<close>; the due date is kept as the text received.\<close>

definition createTask ::
  "string \<Rightarrow> (string \<times> string) list \<Rightarrow> string \<Rightarrow> int \<Rightarrow> session_manager \<Rightarrow> task \<times> session_manager" where
  "createTask userId params uuid t sm =
     (let taskId = uuid;
          task = \<lparr>t_id = taskId, t_userId = userId, t_botId = field params ''botId'',
                  t_title = field params ''title'', t_description = field params ''description'',
                  t_priority = field params ''priority'', t_status = ''pending'',
                  t_createdAt = t, t_dueDate = truthy (field params ''dueDate'')\<rparr>;
          mine = (case map_of (userTasks sm) userId of None \<Rightarrow> {||} | Some s \<Rightarrow> s)
      in (task, sm\<lparr>tasks := AList.update taskId task (tasks sm),
                    userTasks := AList.update userId (finsert taskId mine) (userTasks sm)\<rparr>))"

text \<open>
  \<open>MessageRouter.route\<close>. Handing a message to a bot or to a user is an action; the
  acknowledgement goes to the sender. A message without sender or target is answered
  with the router's own error frame.
\<close>

definition sendMessageAck :: "connection \<Rightarrow> string \<Rightarrow> int \<Rightarrow> action list" where
  "sendMessageAck ws messageId t =
     sendFrame ws \<lparr>o_type = ''message_ack'', o_data = MessageAck messageId ''delivered'' t,
                   o_timestamp = Some t, o_id = None\<rparr>"

definition route :: "connection \<Rightarrow> string \<Rightarrow> (string \<times> string) list \<Rightarrow> call_env \<Rightarrow> action list" where
  "route senderWs sender d env =
     (case truthy (field d ''to'') of
        None \<Rightarrow>
          sendFrame senderWs
            \<lparr>o_type = ''error'',
             o_data = ErrorData (Str ''ROUTING_FAILED'') ''Invalid message: missing from/to'',
             o_timestamp = Some (env_now env), o_id = None\<rparr>
      | Some target \<Rightarrow>
          let openclawMessage =
                \<lparr>m_id = uuid_a env, m_from = sender, m_to = target, m_text = field d ''text'',
                 m_timestamp = env_now env, m_replyTo = field d ''replyTo'',
                 m_messageId = uuid_b env\<rparr>
          in (case truthy (field d ''botId'') of
                Some botId \<Rightarrow>
                  [ToBot botId openclawMessage] @ sendMessageAck senderWs (uuid_a env) (env_now env)
              | None \<Rightarrow>
                  if isBotId target
                  then [ToBot target openclawMessage]
                       @ sendMessageAck senderWs (uuid_a env) (env_now env)
                  else [ToUser target openclawMessage]
                       @ sendMessageAck senderWs (uuid_a env) (env_now env)))"

text \<open>
  The handlers of the server. Each takes the socket as it is when the handler starts and
  returns what it did and the server after it. Reading a field of a frame that has no
  \<open>data\<close> throws; \<open>handleMessage\<close> catches that and answers \<open>Invalid message format\<close>.
\<close>

definition invalid_format :: "connection \<Rightarrow> call_env \<Rightarrow> action list" where
  "invalid_format ws env = sendError ws 400 ''Invalid message format'' (env_now env)"

definition handleMessageFrame :: "connection \<Rightarrow> frame \<Rightarrow> call_env \<Rightarrow> server \<Rightarrow> action list \<times> server" where
  "handleMessageFrame ws fr env st =
     (case authenticated ws of
        None \<Rightarrow> (sendError ws 401 ''Not authenticated'' (env_now env), st)
      | Some userId \<Rightarrow>
          (case f_data fr of
             None \<Rightarrow> (invalid_format ws env, st)
           | Some messageData \<Rightarrow> (route ws userId messageData env, st)))"

definition handleSubscribe :: "connection \<Rightarrow> frame \<Rightarrow> call_env \<Rightarrow> server \<Rightarrow> action list \<times> server" where
  "handleSubscribe ws fr env st =
     (case authenticated ws of
        None \<Rightarrow> (sendError ws 401 ''Not authenticated'' (env_now env), st)
      | Some userId \<Rightarrow>
          (case f_data fr of
             None \<Rightarrow> (invalid_format ws env, st)
           | Some d \<Rightarrow>
               let botId = field d ''botId'' in
               (case getBot (botRegistry st) botId of
                  None \<Rightarrow> (sendError ws 403 ''Bot not found or access denied'' (env_now env), st)
                | Some b \<Rightarrow>
                    if b_userId b \<noteq> userId
                    then (sendError ws 403 ''Bot not found or access denied'' (env_now env), st)
                    else
                      (sendFrame ws \<lparr>o_type = ''status'', o_data = Subscribed botId,
                                     o_timestamp = Some (env_now env), o_id = f_id fr\<rparr>,
                       set_socket
                         (ws\<lparr>subscribedBots :=
                               (case botId of None \<Rightarrow> subscribedBots ws
                                | Some i \<Rightarrow> finsert i (subscribedBots ws))\<rparr>) st))))"

definition handleUnsubscribe :: "connection \<Rightarrow> frame \<Rightarrow> call_env \<Rightarrow> server \<Rightarrow> action list \<times> server" where
  "handleUnsubscribe ws fr env st =
     (case f_data fr of
        None \<Rightarrow> (invalid_format ws env, st)
      | Some d \<Rightarrow>
          let botId = field d ''botId'' in
          (sendFrame ws \<lparr>o_type = ''status'', o_data = Unsubscribed botId,
                         o_timestamp = Some (env_now env), o_id = f_id fr\<rparr>,
           set_socket
             (ws\<lparr>subscribedBots :=
                   (case botId of None \<Rightarrow> subscribedBots ws
                    | Some i \<Rightarrow> subscribedBots ws |-| {|i|})\<rparr>) st))"

definition handleTask :: "connection \<Rightarrow> frame \<Rightarrow> call_env \<Rightarrow> server \<Rightarrow> action list \<times> server" where
  "handleTask ws fr env st =
     (case authenticated ws of
        None \<Rightarrow> (sendError ws 401 ''Not authenticated'' (env_now env), st)
      | Some userId \<Rightarrow>
          (case f_data fr of
             None \<Rightarrow> (invalid_format ws env, st)
           | Some taskData \<Rightarrow>
               let (task, sm) = createTask userId taskData (uuid_a env) (env_now env) (sessionManager st)
               in (sendFrame ws \<lparr>o_type = ''task_status'', o_data = TaskStatus (t_id task) ''pending'',
                                  o_timestamp = Some (env_now env), o_id = f_id fr\<rparr>,
                   st\<lparr>sessionManager := sm\<rparr>)))"

definition handleStatusRequest :: "connection \<Rightarrow> frame \<Rightarrow> call_env \<Rightarrow> server \<Rightarrow> action list \<times> server" where
  "handleStatusRequest ws fr env st =
     (case f_data fr of
        None \<Rightarrow> (invalid_format ws env, st)
      | Some d \<Rightarrow>
          if field d ''request'' = Some ''connections'' then
            (sendFrame ws \<lparr>o_type = ''status'',
                           o_data = ConnectionsStatus (length (connections st)) (getUniqueUserCount st),
                           o_timestamp = Some (env_now env), o_id = f_id fr\<rparr>, st)
          else if field d ''request'' = Some ''bots'' then
            (case authenticated ws of
               None \<Rightarrow> ([], st)
             | Some userId \<Rightarrow>
                 (sendFrame ws \<lparr>o_type = ''status'',
                                o_data = BotsList (getUserBots (botRegistry st) userId),
                                o_timestamp = Some (env_now env), o_id = f_id fr\<rparr>, st))
          else
            (sendFrame ws \<lparr>o_type = ''status'',
                           o_data = ServerStatus (length (connections st)) (getUniqueUserCount st),
                           o_timestamp = Some (env_now env), o_id = f_id fr\<rparr>, st))"

definition auth_error :: "connection \<Rightarrow> frame \<Rightarrow> call_env \<Rightarrow> string \<Rightarrow> action list" where
  "auth_error ws fr env msg =
     sendFrame ws \<lparr>o_type = ''auth_error'', o_data = AuthError msg,
                   o_timestamp = Some (env_now env), o_id = f_id fr\<rparr>"

text \<open>
  The part of \<open>handleAuth\<close> that follows the credential check, with \<open>ws.userId\<close> set.
\<close>

definition finish_auth :: "connection \<Rightarrow> string \<Rightarrow> frame \<Rightarrow> call_env \<Rightarrow> server \<Rightarrow> action list \<times> server" where
  "finish_auth ws userId fr env st0 =
     (let ws1 = ws\<lparr>ws_userId := Some userId\<rparr>;
          st = set_socket ws1 st0;
          userConnections = getUserConnections st (Some userId)
      in if max_per_user (srv_sessions st) \<le> length userConnections
         then (auth_error ws1 fr env ''Maximum concurrent sessions reached'', st)
         else
           (case createSession (ws_connectionId ws1) userId (uuid_a env) (env_now env) (sessionManager st) of
              Inl e \<Rightarrow> (auth_error ws1 fr env ''Authentication failed'', st)
            | Inr (s, sm) \<Rightarrow>
                let userBots = getUserBots (botRegistry st) userId
                in (sendFrame ws1 \<lparr>o_type = ''auth_ok'',
                                    o_data = AuthOk userId (ws_connectionId ws1) (jwt_expiry st),
                                    o_timestamp = Some (env_now env), o_id = f_id fr\<rparr>
                    @ (if userBots \<noteq> []
                       then sendFrame ws1 \<lparr>o_type = ''status'', o_data = BotsList userBots,
                                           o_timestamp = Some (env_now env), o_id = None\<rparr>
                       else []),
                    st\<lparr>sessionManager := sm\<rparr>)))"

definition handleAuth :: "connection \<Rightarrow> frame \<Rightarrow> call_env \<Rightarrow> server \<Rightarrow> action list \<times> server" where
  "handleAuth ws fr env st =
     (case f_data fr of
        None \<Rightarrow> (auth_error ws fr env ''Authentication failed'', st)
      | Some d \<Rightarrow>
          (case truthy (field d ''apiKey'') of
             Some apiKey \<Rightarrow>
               let authResult = validateApiKey (sha256_hex env) (authService st) apiKey
               in (case (if valid authResult then truthy (v_userId authResult) else None) of
                     None \<Rightarrow> (auth_error ws fr env ''Invalid API key'', st)
                   | Some userId \<Rightarrow> finish_auth ws userId fr env st)
           | None \<Rightarrow>
               (case truthy (field d ''token'') of
                  Some token \<Rightarrow>
                    (case jwt_verify env token of
                       None \<Rightarrow> (auth_error ws fr env ''Invalid token'', st)
                     | Some userId \<Rightarrow> finish_auth ws userId fr env st)
                | None \<Rightarrow> (auth_error ws fr env ''Authentication required'', st))))"

text \<open>
  \<open>handleMessage(ws, data)\<close> for the socket with the given id: the frame is parsed,
  the activity time of the socket is refreshed, and the frame goes to its handler.
\<close>

definition dispatch :: "connection \<Rightarrow> frame \<Rightarrow> call_env \<Rightarrow> server \<Rightarrow> action list \<times> server" where
  "dispatch ws fr env st =
     (if f_type fr = ''auth'' then handleAuth ws fr env st
      else if f_type fr = ''message'' then handleMessageFrame ws fr env st
      else if f_type fr = ''ping'' then
        (sendFrame ws \<lparr>o_type = ''pong'', o_data = Pong (env_now env),
                       o_timestamp = Some (env_now env), o_id = None\<rparr>, st)
      else if f_type fr = ''subscribe'' then handleSubscribe ws fr env st
      else if f_type fr = ''unsubscribe'' then handleUnsubscribe ws fr env st
      else if f_type fr = ''task'' then handleTask ws fr env st
      else if f_type fr = ''status'' then handleStatusRequest ws fr env st
      else (sendError ws 400 (''Unknown frame type: '' @ f_type fr) (env_now env), st))"

definition handleMessage :: "string \<Rightarrow> frame option \<Rightarrow> call_env \<Rightarrow> server \<Rightarrow> action list \<times> server" where
  "handleMessage i parsed env st =
     (case map_of (sockets st) i of
        None \<Rightarrow> ([], st)
      | Some ws \<Rightarrow>
          (case parsed of
             None \<Rightarrow> (invalid_format ws env, st)
           | Some rawFrame \<Rightarrow>
               let ws1 = ws\<lparr>lastActivity := env_now env\<rparr>
               in dispatch ws1 rawFrame env (set_socket ws1 st)))"

text \<open>
  One run of the heartbeat timer: a stale socket is told and closed with code 4000, any
  other open socket is pinged. \<open>ws.close\<close> takes an open socket to \<open>CLOSING\<close>.
\<close>

definition close_socket :: "connection \<Rightarrow> connection" where
  "close_socket ws = (if readyState ws = OPEN then ws\<lparr>readyState := CLOSING\<rparr> else ws)"

definition heartbeat_socket :: "int \<Rightarrow> int \<Rightarrow> connection \<Rightarrow> action list \<times> connection" where
  "heartbeat_socket t limit ws =
     (if t - lastActivity ws > limit
      then (sendFrame ws \<lparr>o_type = ''status'', o_data = TimeoutStatus,
                           o_timestamp = Some t, o_id = None\<rparr>
            @ [Close (ws_connectionId ws) 4000 ''Connection timeout''],
            close_socket ws)
      else (if readyState ws = OPEN then [Ping (ws_connectionId ws)] else [], ws))"

fun heartbeat_loop :: "int \<Rightarrow> string list \<Rightarrow> server \<Rightarrow> action list \<times> server" where
  "heartbeat_loop t [] st = ([], st)"
| "heartbeat_loop t (i # rest) st =
     (case map_of (sockets st) i of
        None \<Rightarrow> heartbeat_loop t rest st
      | Some ws \<Rightarrow>
          let (acts, ws') = heartbeat_socket t (timeout (srv_sessions st) * 1000) ws;
              (more, st') = heartbeat_loop t rest (set_socket ws' st)
          in (acts @ more, st'))"

definition heartbeat :: "int \<Rightarrow> server \<Rightarrow> action list \<times> server" where
  "heartbeat t st = heartbeat_loop t (connections st) st"

text \<open>\<open>stop()\<close>: every connection is told and closed with code 1001; the map is cleared.\<close>

definition stop_socket :: "int \<Rightarrow> connection \<Rightarrow> action list \<times> connection" where
  "stop_socket t ws =
     (sendError ws 1001 ''Server shutting down'' t
      @ [Close (ws_connectionId ws) 1001 ''Server shutting down''],
      close_socket ws)"

fun stop_loop :: "int \<Rightarrow> string list \<Rightarrow> server \<Rightarrow> action list \<times> server" where
  "stop_loop t [] st = ([], st)"
| "stop_loop t (i # rest) st =
     (case map_of (sockets st) i of
        None \<Rightarrow> stop_loop t rest st
      | Some ws \<Rightarrow>
          let (acts, ws') = stop_socket t ws;
              (more, st') = stop_loop t rest (set_socket ws' st)
          in (acts @ more, st'))"

definition stop_server :: "int \<Rightarrow> server \<Rightarrow> action list \<times> server" where
  "stop_server t st =
     (let (acts, st') = stop_loop t (connections st) st
      in (acts, st'\<lparr>connections := []\<rparr>))"

text \<open>
  \<open>handleDisconnect\<close>, the \<open>close\<close> handler of a socket: the connection leaves its
  session and the map \<open>connections\<close>, and the bots it subscribed to go \<open>offline\<close>.
\<close>

definition updateBotStatus :: "string fset \<Rightarrow> string \<Rightarrow> bot_registry \<Rightarrow> bot_registry" where
  "updateBotStatus botIds status reg =
     reg\<lparr>bots := map (\<lambda>e. if fst e |\<in>| botIds then (fst e, (snd e)\<lparr>b_status := status\<rparr>) else e)
                    (bots reg)\<rparr>"

definition handleDisconnect :: "string \<Rightarrow> server \<Rightarrow> server" where
  "handleDisconnect i st =
     (case map_of (sockets st) i of
        None \<Rightarrow> st
      | Some ws \<Rightarrow>
          st\<lparr>sessionManager := endSession (ws_connectionId ws) (sessionManager st),
             connections := removeAll (ws_connectionId ws) (connections st),
             botRegistry := updateBotStatus (subscribedBots ws) ''offline'' (botRegistry st)\<rparr>)"

section \<open>Secure server (server-secure.js)\<close>

text \<open>
  \<open>validateApiKey(apiKey, secret)\<close> of the secure server, for a key that is a string.
  The hash is a parameter. \<open>timingSafeEqual\<close> throws when the two buffers differ in
  length, which the function catches; a character above 127 takes two bytes.
\<close>

definition utf8_length :: "string \<Rightarrow> nat" where
  "utf8_length s = length s + length (filter (\<lambda>c. 128 \<le> (of_char c :: nat)) s)"

definition validateApiKey_secure :: "(string \<Rightarrow> string) \<Rightarrow> string \<Rightarrow> string \<Rightarrow> string option" where
  "validateApiKey_secure sha256 key secret =
     (if key = [] then None
      else
        let parts = split_on CHR ''_'' key
        in if length parts \<noteq> 3 \<or> parts ! 0 \<noteq> ''t2b'' then None
           else
             let userId = parts ! 1; signature = parts ! 2
             in if userId = [] \<or> signature = [] then None
                else
                  let expectedSig = take 16 (sha256 (userId @ '':'' @ secret))
                  in if length signature \<noteq> 16 then None
                     else if utf8_length signature \<noteq> utf8_length expectedSig then None
                     else if signature \<noteq> expectedSig then None
                     else Some userId)"

definition generateApiKey_secure :: "(string \<Rightarrow> string) \<Rightarrow> string \<Rightarrow> string \<Rightarrow> string" where
  "generateApiKey_secure sha256 userId secret =
     ''t2b_'' @ userId @ ''_'' @ take 16 (sha256 (userId @ '':'' @ secret))"

text \<open>\<open>sanitize\<close> of a string: angle brackets and control characters go, 4096 characters stay.\<close>

definition sanitize :: "string \<Rightarrow> string" where
  "sanitize str =
     take 4096
       (filter (\<lambda>c. \<not> ((of_char c :: nat) < 32 \<or> (of_char c :: nat) = 127))
          (filter (\<lambda>c. c \<noteq> CHR ''<'' \<and> c \<noteq> CHR ''>'') str))"

record user_data =
  ud_bots :: "(string, bot) jsmap"
  ud_sessions :: "string fset"
  ud_tasks :: "string fset"
  ud_connections :: "string fset"

record log_entry =
  l_timestamp :: int
  l_level :: string
  l_message :: string
  l_data :: "(string \<times> string) list"

record secure_server =
  sec_userData :: "(string, user_data) jsmap"
  sec_bots :: "(string, bot) jsmap"
  sec_tasks :: "(string, task) jsmap"
  serverLogs :: "log_entry list"

definition log_line :: "int \<Rightarrow> string \<Rightarrow> string \<Rightarrow> (string \<times> string) list \<Rightarrow> secure_server \<Rightarrow> secure_server" where
  "log_line t level msg d st =
     st\<lparr>serverLogs := take 200 (\<lparr>l_timestamp = t, l_level = level, l_message = msg, l_data = d\<rparr>
                                  # serverLogs st)\<rparr>"

definition getUserData :: "string \<Rightarrow> secure_server \<Rightarrow> user_data \<times> secure_server" where
  "getUserData userId st =
     (case map_of (sec_userData st) userId of
        Some d \<Rightarrow> (d, st)
      | None \<Rightarrow>
          let d = \<lparr>ud_bots = [], ud_sessions = {||}, ud_tasks = {||}, ud_connections = {||}\<rparr>
          in (d, st\<lparr>sec_userData := AList.update userId d (sec_userData st)\<rparr>))"

definition verifyBotOwnership :: "string \<Rightarrow> string \<Rightarrow> secure_server \<Rightarrow> bool \<times> secure_server" where
  "verifyBotOwnership userId botId st =
     (let (userBotData, st1) = getUserData userId st
      in (case map_of (sec_bots st1) botId of
            None \<Rightarrow> (False, st1)
          | Some b \<Rightarrow>
              if b_userId b \<noteq> userId then (False, st1)
              else if map_of (ud_bots userBotData) botId = None then (False, st1)
              else (True, st1)))"

definition sendError_secure :: "connection \<Rightarrow> int \<Rightarrow> string \<Rightarrow> action list" where
  "sendError_secure ws code msg =
     sendFrame ws \<lparr>o_type = ''error'', o_data = ErrorData (Num code) msg,
                   o_timestamp = None, o_id = None\<rparr>"

text \<open>\<open>const { ... } = frame.data || {}\<close>: a frame without data has no fields.\<close>

definition data_or_empty :: "frame \<Rightarrow> (string \<times> string) list" where
  "data_or_empty fr = (case f_data fr of None \<Rightarrow> [] | Some d \<Rightarrow> d)"

definition handleMessageFrame_secure ::
  "connection \<Rightarrow> frame \<Rightarrow> call_env \<Rightarrow> secure_server \<Rightarrow> action list \<times> secure_server" where
  "handleMessageFrame_secure ws fr env st =
     (case authenticated ws of
        None \<Rightarrow> (sendError_secure ws 401 ''Not authenticated'', st)
      | Some userId \<Rightarrow>
          (case truthy (field (data_or_empty fr) ''to'') of
             None \<Rightarrow> (sendError_secure ws 400 ''Missing bot ID'', st)
           | Some botId \<Rightarrow>
               let (owned, st1) = verifyBotOwnership userId botId st
               in if \<not> owned
                  then (sendError_secure ws 403 ''Bot not found or access denied'',
                        log_line (env_now env) ''WARN'' ''Unauthorized message attempt''
                          [(''userId'', userId), (''botId'', botId),
                           (''connectionId'', ws_connectionId ws)] st1)
                  else
                    let messageId = uuid_a env;
                        sanitizedText =
                          (case field (data_or_empty fr) ''text'' of
                             None \<Rightarrow> [] | Some text \<Rightarrow> sanitize text)
                    in (sendFrame ws
                          \<lparr>o_type = ''message'',
                           o_data = BotMessage messageId botId userId
                                      (if sanitizedText \<noteq> [] then ''Echo: '' @ sanitizedText else [])
                                      (env_now env),
                           o_timestamp = None, o_id = None\<rparr>
                        @ sendFrame ws
                          \<lparr>o_type = ''message_ack'', o_data = Ack messageId ''delivered'',
                           o_timestamp = None, o_id = None\<rparr>,
                        st1)))"

definition handleTask_secure ::
  "connection \<Rightarrow> frame \<Rightarrow> call_env \<Rightarrow> secure_server \<Rightarrow> action list \<times> secure_server" where
  "handleTask_secure ws fr env st =
     (case authenticated ws of
        None \<Rightarrow> (sendError_secure ws 401 ''Not authenticated'', st)
      | Some userId \<Rightarrow>
          (case truthy (field (data_or_empty fr) ''botId'') of
             None \<Rightarrow> (sendError_secure ws 400 ''Missing bot ID'', st)
           | Some botId \<Rightarrow>
               let (owned, st1) = verifyBotOwnership userId botId st
               in if \<not> owned
                  then (sendError_secure ws 403 ''Bot not found or access denied'', st1)
                  else
                    let d = data_or_empty fr;
                        clean = (\<lambda>k. case field d k of None \<Rightarrow> [] | Some v \<Rightarrow> sanitize v);
                        taskId = uuid_a env;
                        task = \<lparr>t_id = taskId, t_userId = userId, t_botId = Some botId,
                                t_title = Some (clean ''title''),
                                t_description = Some (clean ''description''),
                                t_priority = Some (if clean ''priority'' \<noteq> [] then clean ''priority''
                                                   else ''medium''),
                                t_status = ''pending'', t_createdAt = env_now env,
                                t_dueDate = None\<rparr>;
                        st2 = st1\<lparr>sec_tasks := AList.update taskId task (sec_tasks st1)\<rparr>;
                        (ud, st3) = getUserData userId st2;
                        st4 = st3\<lparr>sec_userData :=
                                AList.update userId (ud\<lparr>ud_tasks := finsert taskId (ud_tasks ud)\<rparr>)
                                  (sec_userData st3)\<rparr>
                    in (sendFrame ws
                          \<lparr>o_type = ''task_status'', o_data = TaskStatus taskId ''pending'',
                           o_timestamp = None, o_id = None\<rparr>,
                        log_line (env_now env) ''INFO'' ''Task created''
                          [(''taskId'', taskId), (''userId'', userId), (''botId'', botId)] st4)))"

definition handleSubscribe_secure ::
  "connection \<Rightarrow> frame \<Rightarrow> call_env \<Rightarrow> secure_server \<Rightarrow> action list \<times> connection \<times> secure_server" where
  "handleSubscribe_secure ws fr env st =
     (case authenticated ws of
        None \<Rightarrow> (sendError_secure ws 401 ''Not authenticated'', ws, st)
      | Some userId \<Rightarrow>
          (case truthy (field (data_or_empty fr) ''botId'') of
             None \<Rightarrow> (sendError_secure ws 400 ''Missing bot ID'', ws, st)
           | Some botId \<Rightarrow>
               let (owned, st1) = verifyBotOwnership userId botId st
               in if \<not> owned
                  then (sendError_secure ws 403 ''Bot not found or access denied'', ws, st1)
                  else (sendFrame ws \<lparr>o_type = ''status'', o_data = Subscribed (Some botId),
                                      o_timestamp = None, o_id = None\<rparr>,
                        ws\<lparr>subscribedBots := finsert botId (subscribedBots ws)\<rparr>, st1)))"

text \<open>
  A socket stored under its own id, as \<open>handleConnection\<close> stores it.
\<close>

definition sockets_ok :: "server \<Rightarrow> bool" where
  "sockets_ok st = list_all (\<lambda>e. ws_connectionId (snd e) = fst e) (sockets st)"

text \<open>Joining with a separator, the inverse of \<open>split\<close>.\<close>

fun join_with :: "char \<Rightarrow> string list \<Rightarrow> string" where
  "join_with d [] = []"
| "join_with d [p] = p"
| "join_with d (p # q # ps) = p @ d # join_with d (q # ps)"

text \<open>Sample servers, sockets and frames for the server properties.\<close>

definition demo_env :: call_env where
  "demo_env = \<lparr>env_now = 5000, uuid_a = ''id-1'', uuid_b = ''id-2'',
                sha256_hex = (\<lambda>s. s), jwt_verify = (\<lambda>t. None)\<rparr>"

definition alice_bot :: bot where
  "alice_bot = \<lparr>b_id = ''bot_1'', b_userId = ''alice'', b_name = ''Clawra'',
                 b_description = [], b_type = ''openclaw'', b_status = ''online''\<rparr>"

definition socket_of :: "string \<Rightarrow> string option \<Rightarrow> int \<Rightarrow> connection" where
  "socket_of i u t =
     \<lparr>ws_connectionId = i, ws_userId = u, subscribedBots = {||}, lastActivity = t,
      readyState = OPEN\<rparr>"

definition demo_server :: server where
  "demo_server =
     \<lparr>srv_sessions = \<lparr>timeout = 300, max_per_user = 5, heartbeat_interval = 30000\<rparr>,
      jwt_expiry = ''24h'',
      sessionManager = new_session_manager,
      botRegistry = \<lparr>bots = [(''bot_1'', alice_bot)], userBots = [(''alice'', [''bot_1''])]\<rparr>,
      authService = \<lparr>apiKeys = []\<rparr>,
      sockets = [(''c1'', socket_of ''c1'' (Some ''alice'') 4000),
                 (''c2'', socket_of ''c2'' (Some ''bob'') 4000),
                 (''c3'', socket_of ''c3'' None 4000)],
      connections = [''c1'', ''c2'', ''c3'']\<rparr>"

definition demo_secure :: "(string, bot) jsmap \<Rightarrow> secure_server" where
  "demo_secure bs = \<lparr>sec_userData = [], sec_bots = bs, sec_tasks = [], serverLogs = []\<rparr>"

definition subscribe_frame :: frame where
  "subscribe_frame = \<lparr>f_type = ''subscribe'', f_data = Some [(''botId'', ''bot_1'')],
                       f_id = Some ''f3''\<rparr>"

definition forged_auth_frame :: frame where
  "forged_auth_frame = \<lparr>f_type = ''auth'',
                         f_data = Some [(''apiKey'', ''t2b_alice_0000000000000000'')],
                         f_id = Some ''f0''\<rparr>"

definition task_frame :: frame where
  "task_frame = \<lparr>f_type = ''task'',
                  f_data = Some [(''botId'', ''bot_1''), (''title'', ''Report''),
                                 (''description'', ''Weekly''), (''priority'', ''high'')],
                  f_id = Some ''f1''\<rparr>"

definition message_frame :: frame where
  "message_frame = \<lparr>f_type = ''message'',
                     f_data = Some [(''to'', ''bot_1''), (''text'', ''hi'')],
                     f_id = Some ''f2''\<rparr>"

definition ping_frame :: frame where
  "ping_frame = \<lparr>f_type = ''ping'', f_data = None, f_id = None\<rparr>"

definition idle_server :: server where
  "idle_server = demo_server\<lparr>sockets := [(''c1'', socket_of ''c1'' (Some ''alice'') 1000),
                                          (''c2'', socket_of ''c2'' (Some ''bob'') 400000)],
                             connections := [''c1'', ''c2'']\<rparr>"

text \<open>
  One socket that authenticates twice, with a good token of \<open>alice\<close> and then with a
  good token of \<open>bob\<close>.
\<close>

definition token_env :: "string \<Rightarrow> int \<Rightarrow> call_env" where
  "token_env u t =
     \<lparr>env_now = t, uuid_a = u, uuid_b = u, sha256_hex = (\<lambda>s. s),
      jwt_verify = (\<lambda>tok. if tok = ''token-alice'' then Some ''alice''
                          else if tok = ''token-bob'' then Some ''bob'' else None)\<rparr>"

definition token_frame :: "string \<Rightarrow> frame" where
  "token_frame tok = \<lparr>f_type = ''auth'', f_data = Some [(''token'', tok)], f_id = None\<rparr>"

definition alice_on_c3 :: server where
  "alice_on_c3 =
     snd (handleMessage ''c3'' (Some (token_frame ''token-alice'')) (token_env ''s1'' 1000)
            demo_server)"

definition reauth_server :: server where
  "reauth_server =
     snd (handleMessage ''c3'' (Some (token_frame ''token-bob'')) (token_env ''s2'' 2000)
            alice_on_c3)"

section \<open>Properties\<close>

subsection \<open>Session manager\<close>

lemma truthy_Some: "truthy x = Some s \<longleftrightarrow> x = Some s \<and> s \<noteq> []"
  by (cases x) auto

lemma truthy_None: "truthy x = None \<longleftrightarrow> x = None \<or> x = Some []"
  by (cases x) auto

lemma createSession_cases:
  assumes "createSession c u uuid now sm = Inr (S, sm')"
  obtains
    (reuse) k S0 where "map_of (userSessions sm) u = Some k" "k \<noteq> []"
      "map_of (sessions sm) k = Some S0"
      "S = S0\<lparr>connectionIds := finsert c (connectionIds S0), lastActivityAt := now\<rparr>"
      "sm' = sm\<lparr>sessions := AList.update k S (sessions sm)\<rparr>"
  | (fresh) "truthy (map_of (userSessions sm) u) = None"
      "S = \<lparr>s_id = uuid, s_userId = u, connectionIds = {|c|}, createdAt = now, lastActivityAt = now\<rparr>"
      "sm' = sm\<lparr>sessions := AList.update uuid S (sessions sm),
                 userSessions := AList.update u uuid (userSessions sm)\<rparr>"
  using assms
  by (auto simp: createSession_def Let_def truthy_Some split: option.splits)

text \<open>
  C5. Attaching the same connection id for the same user a second time creates no second
  session and no duplicate membership: the second call returns the session of the first
  call, the index \<open>userSessions\<close> and the keys of \<open>sessions\<close> are unchanged, the
  connection set is the same and holds the connection, and the only field that the
  second call writes is \<open>lastActivityAt\<close>: with the clock reading of the first call
  the state is identical.
\<close>

theorem createSession_idempotent:
  assumes first: "createSession c u uuid1 t1 sm = Inr (S1, sm1)"
    and uuid: "uuid1 \<noteq> []"
  shows "\<exists>k. map_of (userSessions sm1) u = Some k
           \<and> map_of (sessions sm1) k = Some S1
           \<and> c |\<in>| connectionIds S1
           \<and> createSession c u uuid2 t2 sm1 =
               Inr (S1\<lparr>lastActivityAt := t2\<rparr>,
                    sm1\<lparr>sessions := AList.update k (S1\<lparr>lastActivityAt := t2\<rparr>) (sessions sm1)\<rparr>)
           \<and> map fst (AList.update k (S1\<lparr>lastActivityAt := t2\<rparr>) (sessions sm1))
               = map fst (sessions sm1)
           \<and> createSession c u uuid2 t1 sm1 = Inr (S1, sm1)"
  using first
proof (cases rule: createSession_cases)
  case (reuse k S0)
  have a: "map_of (userSessions sm1) u = Some k"
    using reuse by simp
  have b: "map_of (sessions sm1) k = Some S1"
    using reuse by (simp add: update_conv')
  have t: "lastActivityAt S1 = t1"
    using reuse first by simp
  have c: "finsert c (connectionIds S1) = connectionIds S1"
    using reuse by simp
  have keys: "map fst (AList.update k (S1\<lparr>lastActivityAt := t2\<rparr>) (sessions sm1)) = map fst (sessions sm1)"
    using b by (simp add: update_keys map_of_eq_None_iff [symmetric])
  have same: "S1\<lparr>lastActivityAt := t1\<rparr> = S1"
    using t by simp
  have triv: "AList.update k S1 (sessions sm1) = sessions sm1"
    using b by (rule update_triv)
  show ?thesis
    using a b c keys reuse(2) same triv
    by (auto simp: createSession_def Let_def)
next
  case fresh
  have a: "map_of (userSessions sm1) u = Some uuid1"
    using fresh by (simp add: update_conv')
  have b: "map_of (sessions sm1) uuid1 = Some S1"
    using fresh by (simp add: update_conv')
  have t: "lastActivityAt S1 = t1"
    using fresh by simp
  have c: "finsert c (connectionIds S1) = connectionIds S1"
    using fresh by simp
  have keys: "map fst (AList.update uuid1 (S1\<lparr>lastActivityAt := t2\<rparr>) (sessions sm1)) = map fst (sessions sm1)"
    using b by (simp add: update_keys map_of_eq_None_iff [symmetric])
  have same: "S1\<lparr>lastActivityAt := t1\<rparr> = S1"
    using t by simp
  have triv: "AList.update uuid1 S1 (sessions sm1) = sessions sm1"
    using b by (rule update_triv)
  have mem: "c |\<in>| connectionIds S1"
    using fresh by simp
  show ?thesis
    using a b c keys uuid same triv mem
    by (auto simp: createSession_def Let_def)
qed

theorem createSession_idempotent_witness:
  "createSession ''c1'' ''alice'' ''s1'' 1000 new_session_manager
     = Inr (\<lparr>s_id = ''s1'', s_userId = ''alice'', connectionIds = {|''c1''|},
              createdAt = 1000, lastActivityAt = 1000\<rparr>,
            new_session_manager
              \<lparr>sessions := [(''s1'', \<lparr>s_id = ''s1'', s_userId = ''alice'',
                   connectionIds = {|''c1''|}, createdAt = 1000, lastActivityAt = 1000\<rparr>)],
               userSessions := [(''alice'', ''s1'')]\<rparr>)
   \<and> createSession ''c1'' ''alice'' ''s2'' 2000
        (new_session_manager
              \<lparr>sessions := [(''s1'', \<lparr>s_id = ''s1'', s_userId = ''alice'',
                   connectionIds = {|''c1''|}, createdAt = 1000, lastActivityAt = 1000\<rparr>)],
               userSessions := [(''alice'', ''s1'')]\<rparr>)
     = Inr (\<lparr>s_id = ''s1'', s_userId = ''alice'', connectionIds = {|''c1''|},
              createdAt = 1000, lastActivityAt = 2000\<rparr>,
            new_session_manager
              \<lparr>sessions := [(''s1'', \<lparr>s_id = ''s1'', s_userId = ''alice'',
                   connectionIds = {|''c1''|}, createdAt = 1000, lastActivityAt = 2000\<rparr>)],
               userSessions := [(''alice'', ''s1'')]\<rparr>)"
proof -
  have first: "createSession ''c1'' ''alice'' ''s1'' 1000 new_session_manager
     = Inr (\<lparr>s_id = ''s1'', s_userId = ''alice'', connectionIds = {|''c1''|},
              createdAt = 1000, lastActivityAt = 1000\<rparr>,
            new_session_manager
              \<lparr>sessions := [(''s1'', \<lparr>s_id = ''s1'', s_userId = ''alice'',
                   connectionIds = {|''c1''|}, createdAt = 1000, lastActivityAt = 1000\<rparr>)],
               userSessions := [(''alice'', ''s1'')]\<rparr>)"
    by (simp add: createSession_def new_session_manager_def Let_def)
  have ne: "''s1'' \<noteq> []"
    by simp
  show ?thesis
    using createSession_idempotent [OF first ne, of "''s2''" 2000] first
    by (auto simp: update_conv')
qed

lemma index_inv_empty: "index_inv Map.empty Map.empty"
  by (simp add: index_inv_def)

lemma index_inv_delete:
  assumes "index_inv m n" "m k = Some S"
  shows "index_inv (m(k := None)) (n(s_userId S := None))"
proof -
  have nS: "n (s_userId S) = Some k"
    using assms by (auto simp: index_inv_def)
  have p1: "k' \<noteq> [] \<and> connectionIds S' \<noteq> {||} \<and> (n(s_userId S := None)) (s_userId S') = Some k'"
    if a: "(m(k := None)) k' = Some S'" for k' S'
  proof -
    have k': "k' \<noteq> k" "m k' = Some S'" using a by (auto split: if_splits)
    then have b: "k' \<noteq> []" "connectionIds S' \<noteq> {||}" "n (s_userId S') = Some k'"
      using assms(1) by (auto simp: index_inv_def)
    then have "s_userId S' \<noteq> s_userId S" using nS k' by auto
    then show ?thesis using b by simp
  qed
  have p2: "\<exists>S'. (m(k := None)) k' = Some S' \<and> s_userId S' = u"
    if a: "(n(s_userId S := None)) u = Some k'" for u k'
  proof -
    have u: "u \<noteq> s_userId S" "n u = Some k'" using a by (auto split: if_splits)
    then obtain S' where S': "m k' = Some S'" "s_userId S' = u"
      using assms(1) unfolding index_inv_def by blast
    then have "k' \<noteq> k" using u assms(2) by auto
    then show ?thesis using S' by simp
  qed
  show ?thesis
    unfolding index_inv_def using p1 p2 by blast
qed

lemma index_inv_mutate:
  assumes "index_inv m n" "m k = Some S" "s_userId S' = s_userId S" "connectionIds S' \<noteq> {||}"
  shows "index_inv (m(k \<mapsto> S')) n"
proof -
  have nS: "n (s_userId S) = Some k" "k \<noteq> []"
    using assms by (auto simp: index_inv_def)
  have p1: "k' \<noteq> [] \<and> connectionIds T \<noteq> {||} \<and> n (s_userId T) = Some k'"
    if a: "(m(k \<mapsto> S')) k' = Some T" for k' T
  proof (cases "k' = k")
    case True
    then show ?thesis using a assms(3,4) nS by auto
  next
    case False
    then have "m k' = Some T" using a by simp
    then show ?thesis using assms(1) by (auto simp: index_inv_def)
  qed
  have p2: "\<exists>T. (m(k \<mapsto> S')) k' = Some T \<and> s_userId T = u"
    if a: "n u = Some k'" for u k'
  proof -
    obtain T where T: "m k' = Some T" "s_userId T = u"
      using a assms(1) unfolding index_inv_def by blast
    show ?thesis
    proof (cases "k' = k")
      case True
      then show ?thesis using T assms(2,3) by auto
    next
      case False
      then show ?thesis using T by simp
    qed
  qed
  show ?thesis
    unfolding index_inv_def using p1 p2 by blast
qed

lemma index_inv_insert:
  assumes "index_inv m n" "n u = None" "m uuid = None" "uuid \<noteq> []"
    "s_userId S = u" "connectionIds S \<noteq> {||}"
  shows "index_inv (m(uuid \<mapsto> S)) (n(u \<mapsto> uuid))"
proof -
  have p1: "k' \<noteq> [] \<and> connectionIds S' \<noteq> {||} \<and> (n(u \<mapsto> uuid)) (s_userId S') = Some k'"
    if a: "(m(uuid \<mapsto> S)) k' = Some S'" for k' S'
  proof (cases "k' = uuid")
    case True
    then show ?thesis using a assms by auto
  next
    case False
    then have "m k' = Some S'" using a by simp
    then have b: "k' \<noteq> []" "connectionIds S' \<noteq> {||}" "n (s_userId S') = Some k'"
      using assms(1) by (auto simp: index_inv_def)
    then have "s_userId S' \<noteq> u" using assms(2) by auto
    then show ?thesis using b by simp
  qed
  have p2: "\<exists>S'. (m(uuid \<mapsto> S)) k' = Some S' \<and> s_userId S' = u'"
    if a: "(n(u \<mapsto> uuid)) u' = Some k'" for u' k'
  proof (cases "u' = u")
    case True
    then show ?thesis using a assms by auto
  next
    case False
    then have "n u' = Some k'" using a by simp
    then obtain S' where S': "m k' = Some S'" "s_userId S' = u'"
      using assms(1) unfolding index_inv_def by blast
    then have "k' \<noteq> uuid" using assms(3) by auto
    then show ?thesis using S' by simp
  qed
  show ?thesis
    unfolding index_inv_def using p1 p2 by blast
qed

lemma sm_inv_new: "sm_inv new_session_manager"
  by (simp add: sm_inv_def new_session_manager_def index_inv_empty)

lemma find_connection_Some:
  "find_connection c al = Some (k, S) \<Longrightarrow> (k, S) \<in> set al \<and> c |\<in>| connectionIds S"
  by (induction al) (auto split: if_splits)

lemma find_connection_map_of:
  "distinct (map fst al) \<Longrightarrow> find_connection c al = Some (k, S) \<Longrightarrow> map_of al k = Some S"
  by (simp add: find_connection_Some)

lemma endSession_cases:
  obtains
    (absent) "find_connection c (sessions sm) = None" "endSession c sm = sm"
  | (last) k S where "find_connection c (sessions sm) = Some (k, S)"
      "connectionIds S |-| {|c|} = {||}"
      "endSession c sm = sm\<lparr>sessions := AList.delete k (sessions sm),
                     userSessions := AList.delete (s_userId S) (userSessions sm)\<rparr>"
  | (others) k S where "find_connection c (sessions sm) = Some (k, S)"
      "connectionIds S |-| {|c|} \<noteq> {||}"
      "endSession c sm = sm\<lparr>sessions := AList.update k
           (S\<lparr>connectionIds := connectionIds S |-| {|c|}\<rparr>) (sessions sm)\<rparr>"
proof (cases "find_connection c (sessions sm)")
  case None
  then show ?thesis using absent by (simp add: endSession_def)
next
  case (Some p)
  obtain k S where p: "p = (k, S)" by (cases p)
  show ?thesis
  proof (cases "connectionIds S |-| {|c|} = {||}")
    case True
    then show ?thesis using last [of k S] Some p by (simp add: endSession_def)
  next
    case False
    then show ?thesis using others [of k S] Some p by (simp add: endSession_def)
  qed
qed

lemma sm_inv_endSession:
  assumes "sm_inv sm"
  shows "sm_inv (endSession c sm)"
proof (cases c sm rule: endSession_cases)
  case absent
  then show ?thesis using assms by simp
next
  case (last k S)
  have kS: "map_of (sessions sm) k = Some S"
    using last(1) assms by (simp add: find_connection_map_of sm_inv_def)
  show ?thesis
    using assms index_inv_delete [of "map_of (sessions sm)" "map_of (userSessions sm)" k S] kS
    by (simp add: last(3) sm_inv_def distinct_delete delete_conv')
next
  case (others k S)
  have kS: "map_of (sessions sm) k = Some S"
    using others(1) assms by (simp add: find_connection_map_of sm_inv_def)
  show ?thesis
    using assms others(2)
      index_inv_mutate [of "map_of (sessions sm)" "map_of (userSessions sm)" k S
        "S\<lparr>connectionIds := connectionIds S |-| {|c|}\<rparr>"] kS
    by (simp add: others(3) sm_inv_def distinct_update update_conv')
qed

lemma endSession_keys: "fst ` set (sessions (endSession c sm)) \<subseteq> fst ` set (sessions sm)"
proof (cases c sm rule: endSession_cases)
  case absent
  then show ?thesis by simp
next
  case (last k S)
  have "set (map fst (AList.delete k (sessions sm))) \<subseteq> set (map fst (sessions sm))"
    unfolding delete_keys by auto
  then show ?thesis by (simp add: last(3))
next
  case (others k S)
  have "map_of (sessions sm) k \<noteq> None"
    using find_connection_Some [OF others(1)] by (metis map_of_eq_None_iff fst_conv image_eqI)
  then have "k \<in> fst ` set (sessions sm)"
    by (simp add: map_of_eq_None_iff)
  then have "map fst (AList.update k (S\<lparr>connectionIds := connectionIds S |-| {|c|}\<rparr>) (sessions sm)) = map fst (sessions sm)"
    by (simp add: update_keys)
  then have "set (map fst (AList.update k (S\<lparr>connectionIds := connectionIds S |-| {|c|}\<rparr>) (sessions sm))) = set (map fst (sessions sm))"
    by simp
  then show ?thesis by (simp add: others(3))
qed

lemma sm_inv_createSession:
  assumes "sm_inv sm" "uuid \<noteq> []" "uuid \<notin> fst ` set (sessions sm)"
  shows "\<exists>S sm'. createSession c u uuid now sm = Inr (S, sm') \<and> sm_inv sm'
           \<and> fst ` set (sessions sm') \<subseteq> insert uuid (fst ` set (sessions sm))"
proof (cases "truthy (map_of (userSessions sm) u)")
  case None
  have inv: "index_inv (map_of (sessions sm)) (map_of (userSessions sm))"
    using assms(1) by (simp add: sm_inv_def)
  have "map_of (userSessions sm) u \<noteq> Some []"
    using inv unfolding index_inv_def by blast
  then have nu: "map_of (userSessions sm) u = None"
    using None by (simp add: truthy_None)
  have nk: "map_of (sessions sm) uuid = None"
    using assms(3) by (simp add: map_of_eq_None_iff)
  define S where "S = \<lparr>s_id = uuid, s_userId = u, connectionIds = {|c|}, createdAt = now, lastActivityAt = now\<rparr>"
  have S: "s_userId S = u" "connectionIds S \<noteq> {||}" by (simp_all add: S_def)
  have c: "createSession c u uuid now sm = Inr (S, sm\<lparr>sessions := AList.update uuid S (sessions sm),
                     userSessions := AList.update u uuid (userSessions sm)\<rparr>)"
    using None by (simp add: createSession_def Let_def S_def)
  have keys: "set (map fst (AList.update uuid S (sessions sm))) \<subseteq> insert uuid (fst ` set (sessions sm))"
    unfolding update_keys by auto
  show ?thesis
    using assms(1) index_inv_insert [OF inv nu nk assms(2) S] keys
    by (simp add: c sm_inv_def distinct_update update_conv')
next
  case (Some k)
  then have uk: "map_of (userSessions sm) u = Some k" "k \<noteq> []"
    by (simp_all add: truthy_Some)
  have inv: "index_inv (map_of (sessions sm)) (map_of (userSessions sm))"
    using assms(1) by (simp add: sm_inv_def)
  obtain S0 where S0: "map_of (sessions sm) k = Some S0" "s_userId S0 = u"
    using inv uk unfolding index_inv_def by blast
  have kin: "k \<in> fst ` set (sessions sm)"
    using S0 by (metis map_of_eq_None_iff option.distinct(1))
  define S where "S = S0\<lparr>connectionIds := finsert c (connectionIds S0), lastActivityAt := now\<rparr>"
  have S: "s_userId S = s_userId S0" "connectionIds S \<noteq> {||}" by (simp_all add: S_def)
  have c: "createSession c u uuid now sm = Inr (S, sm\<lparr>sessions := AList.update k S (sessions sm)\<rparr>)"
    using Some S0 by (simp add: createSession_def Let_def S_def)
  have keys: "set (map fst (AList.update k S (sessions sm))) \<subseteq> insert uuid (fst ` set (sessions sm))"
    unfolding update_keys using kin by auto
  show ?thesis
    using assms(1) index_inv_mutate [OF inv S0(1) S] keys
    by (simp add: c sm_inv_def distinct_update update_conv')
qed

lemma run_calls_inv:
  "sm_inv sm \<Longrightarrow> distinct (uuids_of cs) \<Longrightarrow> [] \<notin> set (uuids_of cs)
     \<Longrightarrow> set (uuids_of cs) \<inter> fst ` set (sessions sm) = {}
     \<Longrightarrow> calls_ok cs sm \<and> sm_inv (run_calls cs sm)"
proof (induction cs arbitrary: sm)
  case Nil
  then show ?case by simp
next
  case (Cons call cs)
  show ?case
  proof (cases call)
    case (CreateSession connectionId userId uuid now)
    have u: "uuid \<noteq> []" "uuid \<notin> fst ` set (sessions sm)"
      using Cons.prems(3,4) CreateSession by auto
    obtain S sm' where c: "createSession connectionId userId uuid now sm = Inr (S, sm')"
      and i: "sm_inv sm'" and k: "fst ` set (sessions sm') \<subseteq> insert uuid (fst ` set (sessions sm))"
      using sm_inv_createSession [OF Cons.prems(1) u] by blast
    have a1: "uuid \<notin> set (uuids_of cs)"
      using Cons.prems(2) CreateSession by simp
    have a2: "set (uuids_of cs) \<inter> fst ` set (sessions sm) = {}"
      using Cons.prems(4) CreateSession by simp
    have d: "set (uuids_of cs) \<inter> fst ` set (sessions sm') = {}"
      using k a1 a2 by blast
    have "calls_ok cs sm' \<and> sm_inv (run_calls cs sm')"
      using Cons.IH [OF i _ _ d] Cons.prems(2,3) CreateSession by simp
    then show ?thesis
      using c CreateSession by simp
  next
    case (EndSession connectionId)
    have a2: "set (uuids_of cs) \<inter> fst ` set (sessions sm) = {}"
      using Cons.prems(4) EndSession by simp
    have d: "set (uuids_of cs) \<inter> fst ` set (sessions (endSession connectionId sm)) = {}"
      using a2 endSession_keys [of connectionId sm] by blast
    have "calls_ok cs (endSession connectionId sm) \<and> sm_inv (run_calls cs (endSession connectionId sm))"
      using Cons.IH [OF sm_inv_endSession [OF Cons.prems(1)] _ _ d] Cons.prems(2,3) EndSession by simp
    then show ?thesis
      using EndSession by simp
  qed
qed

lemma sm_inv_consistent:
  assumes "sm_inv sm"
  shows "sm_consistent sm"
proof -
  have d1: "distinct (map fst (sessions sm))" and d2: "distinct (map fst (userSessions sm))"
    and inv: "index_inv (map_of (sessions sm)) (map_of (userSessions sm))"
    using assms by (simp_all add: sm_inv_def)
  have a: "index_entry_ok sm e" if "e \<in> set (userSessions sm)" for e
  proof -
    have "map_of (userSessions sm) (fst e) = Some (snd e)"
      using that d2 by simp
    then obtain S where S: "map_of (sessions sm) (snd e) = Some S" "s_userId S = fst e"
      using inv unfolding index_inv_def by blast
    then have "connectionIds S \<noteq> {||}"
      using inv unfolding index_inv_def by blast
    then show ?thesis using S by (simp add: index_entry_ok_def)
  qed
  have "inj_on (\<lambda>e. s_userId (snd e)) (set (sessions sm))"
  proof (rule inj_onI)
    fix x y assume x: "x \<in> set (sessions sm)" and y: "y \<in> set (sessions sm)"
      and e: "s_userId (snd x) = s_userId (snd y)"
    have mx: "map_of (sessions sm) (fst x) = Some (snd x)" using x d1 by simp
    have my: "map_of (sessions sm) (fst y) = Some (snd y)" using y d1 by simp
    have "map_of (userSessions sm) (s_userId (snd x)) = Some (fst x)"
      using inv mx unfolding index_inv_def by blast
    moreover have "map_of (userSessions sm) (s_userId (snd y)) = Some (fst y)"
      using inv my unfolding index_inv_def by blast
    ultimately have "fst x = fst y" using e by simp
    then have "snd x = snd y" using mx my by simp
    then show "x = y" using \<open>fst x = fst y\<close> by (simp add: prod_eq_iff)
  qed
  moreover have "distinct (sessions sm)"
    using d1 by (simp add: distinct_map)
  ultimately have b: "distinct (map (\<lambda>e. s_userId (snd e)) (sessions sm))"
    by (simp add: distinct_map)
  show ?thesis
    using a b by (simp add: sm_consistent_def list_all_iff)
qed


lemma two_devices_sm_eq:
  "two_devices_sm =
     \<lparr>sessions = [(''s1'', \<lparr>s_id = ''s1'', s_userId = ''alice'',
                        connectionIds = {|''c2'', ''c1''|}, createdAt = 1000, lastActivityAt = 1500\<rparr>),
                  (''s3'', \<lparr>s_id = ''s3'', s_userId = ''bob'',
                        connectionIds = {|''c3''|}, createdAt = 2000, lastActivityAt = 2000\<rparr>)],
      userSessions = [(''alice'', ''s1''), (''bob'', ''s3'')], tasks = [], userTasks = []\<rparr>"
  by (simp add: two_devices_sm_def createSession_def new_session_manager_def Let_def)

lemma reauth_sm_eq:
  "reauth_sm =
     \<lparr>sessions = [(''s1'', \<lparr>s_id = ''s1'', s_userId = ''alice'',
                        connectionIds = {|''c3''|}, createdAt = 1000, lastActivityAt = 1000\<rparr>),
                  (''s2'', \<lparr>s_id = ''s2'', s_userId = ''bob'',
                        connectionIds = {|''c3''|}, createdAt = 2000, lastActivityAt = 2000\<rparr>)],
      userSessions = [(''alice'', ''s1''), (''bob'', ''s2'')], tasks = [], userTasks = []\<rparr>"
  by (simp add: reauth_sm_def createSession_def new_session_manager_def Let_def)

text \<open>
  What \<open>endSession\<close> does to the session it acts on, the first stored session that holds
  the connection id (the one \<open>getSessionByConnection\<close> finds). When that session holds
  exactly this connection, it is removed: its key leaves \<open>sessions\<close>, its user leaves
  \<open>userSessions\<close>, and \<open>getSessionByUser\<close> for its user returns nothing. When it
  holds other connections too, it stays stored with the connection removed and the index
  untouched. In a store with distinct keys, every session that has a connection other
  than the detached one is still stored afterwards, for the same user.
\<close>

theorem endSession_detach:
  "(find_connection c (sessions sm) = Some (k, S) \<and> connectionIds S = {|c|} \<longrightarrow>
      map_of (sessions (endSession c sm)) k = None
      \<and> map_of (userSessions (endSession c sm)) (s_userId S) = None
      \<and> getSessionByUser (endSession c sm) (s_userId S) = None)
   \<and> (find_connection c' (sessions sm) = Some (k', S') \<and> connectionIds S' \<noteq> {|c'|} \<longrightarrow>
      map_of (sessions (endSession c' sm)) k'
        = Some (S'\<lparr>connectionIds := connectionIds S' |-| {|c'|}\<rparr>)
      \<and> connectionIds S' |-| {|c'|} \<noteq> {||}
      \<and> userSessions (endSession c' sm) = userSessions sm)
   \<and> (distinct (map fst (sessions sm)) \<and> map_of (sessions sm) k'' = Some S''
        \<and> connectionIds S'' |-| {|c''|} \<noteq> {||} \<longrightarrow>
      (\<exists>T. map_of (sessions (endSession c'' sm)) k'' = Some T
           \<and> s_userId T = s_userId S''
           \<and> connectionIds S'' |-| {|c''|} |\<subseteq>| connectionIds T
           \<and> connectionIds T |\<subseteq>| connectionIds S''))"
proof (intro conjI impI)
  assume a: "find_connection c (sessions sm) = Some (k, S) \<and> connectionIds S = {|c|}"
  then have e: "endSession c sm = sm\<lparr>sessions := AList.delete k (sessions sm),
                     userSessions := AList.delete (s_userId S) (userSessions sm)\<rparr>"
    by (simp add: endSession_def)
  show "map_of (sessions (endSession c sm)) k = None"
    by (simp add: e delete_conv')
  show "map_of (userSessions (endSession c sm)) (s_userId S) = None"
    by (simp add: e delete_conv')
  show "getSessionByUser (endSession c sm) (s_userId S) = None"
    by (simp add: e delete_conv' getSessionByUser_def)
next
  assume a: "find_connection c' (sessions sm) = Some (k', S') \<and> connectionIds S' \<noteq> {|c'|}"
  have m: "c' |\<in>| connectionIds S'"
    using a find_connection_Some by blast
  have ne: "connectionIds S' |-| {|c'|} \<noteq> {||}"
    using a m by auto
  have e: "endSession c' sm = sm\<lparr>sessions := AList.update k'
           (S'\<lparr>connectionIds := connectionIds S' |-| {|c'|}\<rparr>) (sessions sm)\<rparr>"
    using a ne by (simp add: endSession_def)
  show "map_of (sessions (endSession c' sm)) k' = Some (S'\<lparr>connectionIds := connectionIds S' |-| {|c'|}\<rparr>)"
    by (simp add: e update_conv')
  show "connectionIds S' |-| {|c'|} \<noteq> {||}"
    by (rule ne)
  show "userSessions (endSession c' sm) = userSessions sm"
    by (simp add: e)
next
  assume a: "distinct (map fst (sessions sm)) \<and> map_of (sessions sm) k'' = Some S''
        \<and> connectionIds S'' |-| {|c''|} \<noteq> {||}"
  show "\<exists>T. map_of (sessions (endSession c'' sm)) k'' = Some T
           \<and> s_userId T = s_userId S''
           \<and> connectionIds S'' |-| {|c''|} |\<subseteq>| connectionIds T
           \<and> connectionIds T |\<subseteq>| connectionIds S''"
  proof (cases c'' sm rule: endSession_cases)
    case absent
    then show ?thesis using a by auto
  next
    case (last k0 S0)
    have kS: "map_of (sessions sm) k0 = Some S0"
      using last(1) a by (simp add: find_connection_map_of)
    have "k'' \<noteq> k0"
      using kS a last(2) by auto
    then show ?thesis
      using a by (auto simp: last(3) delete_conv')
  next
    case (others k0 S0)
    have kS: "map_of (sessions sm) k0 = Some S0"
      using others(1) a by (simp add: find_connection_map_of)
    show ?thesis
    proof (cases "k'' = k0")
      case True
      then show ?thesis using a kS by (auto simp: others(3) update_conv')
    next
      case False
      then show ?thesis using a by (auto simp: others(3) update_conv')
    qed
  qed
qed

theorem endSession_detach_witness:
  "find_connection ''c3'' (sessions two_devices_sm)
     = Some (''s3'', \<lparr>s_id = ''s3'', s_userId = ''bob'', connectionIds = {|''c3''|},
                      createdAt = 2000, lastActivityAt = 2000\<rparr>)
   \<and> map_of (sessions (endSession ''c3'' two_devices_sm)) ''s3'' = None
   \<and> getSessionByUser (endSession ''c3'' two_devices_sm) ''bob'' = None
   \<and> find_connection ''c1'' (sessions two_devices_sm)
     = Some (''s1'', \<lparr>s_id = ''s1'', s_userId = ''alice'', connectionIds = {|''c2'', ''c1''|},
                      createdAt = 1000, lastActivityAt = 1500\<rparr>)
   \<and> map_of (sessions (endSession ''c1'' two_devices_sm)) ''s1''
     = Some \<lparr>s_id = ''s1'', s_userId = ''alice'', connectionIds = {|''c2''|},
             createdAt = 1000, lastActivityAt = 1500\<rparr>
   \<and> getSessionByUser (endSession ''c1'' two_devices_sm) ''alice''
     = Some \<lparr>s_id = ''s1'', s_userId = ''alice'', connectionIds = {|''c2''|},
             createdAt = 1000, lastActivityAt = 1500\<rparr>"
proof -
  let ?A = "\<lparr>s_id = ''s1'', s_userId = ''alice'', connectionIds = {|''c2'', ''c1''|},
                      createdAt = 1000, lastActivityAt = 1500\<rparr>"
  let ?B = "\<lparr>s_id = ''s3'', s_userId = ''bob'', connectionIds = {|''c3''|},
                      createdAt = 2000, lastActivityAt = 2000\<rparr>"
  have f3: "find_connection ''c3'' (sessions two_devices_sm) = Some (''s3'', ?B)"
    by (simp add: two_devices_sm_eq)
  have f1: "find_connection ''c1'' (sessions two_devices_sm) = Some (''s1'', ?A)"
    by (simp add: two_devices_sm_eq)
  have d: "distinct (map fst (sessions two_devices_sm))"
    by (simp add: two_devices_sm_eq)
  have m: "map_of (sessions two_devices_sm) ''s1'' = Some ?A"
    by (simp add: two_devices_sm_eq)
  have u: "map_of (userSessions (endSession ''c1'' two_devices_sm)) ''alice'' = Some ''s1''"
    by (simp add: two_devices_sm_eq endSession_def)
  have r: "{|''c2'', ''c1''|} |-| {|''c1''|} = {|''c2''|}"
    by auto
  show ?thesis
    using endSession_detach [of "''c3''" two_devices_sm "''s3''" ?B "''c1''" "''s1''" ?A "''s1''" ?A "''c1''"]
      f3 f1 d m u r
    by (simp add: getSessionByUser_def)
qed

lemma alice_on_c3_eq:
  "alice_on_c3 =
     demo_server
       \<lparr>sessionManager :=
          \<lparr>sessions = [(''s1'', \<lparr>s_id = ''s1'', s_userId = ''alice'',
                         connectionIds = {|''c3''|}, createdAt = 1000, lastActivityAt = 1000\<rparr>)],
           userSessions = [(''alice'', ''s1'')], tasks = [], userTasks = []\<rparr>,
        sockets := [(''c1'', socket_of ''c1'' (Some ''alice'') 4000),
                    (''c2'', socket_of ''c2'' (Some ''bob'') 4000),
                    (''c3'', socket_of ''c3'' (Some ''alice'') 1000)]\<rparr>"
  by (simp add: alice_on_c3_def handleMessage_def demo_server_def Let_def dispatch_def
      handleAuth_def token_frame_def token_env_def field_def finish_auth_def set_socket_def
      socket_of_def getUserConnections_def connected_sockets_def List.map_filter_def
      createSession_def new_session_manager_def getUserBots_def getBot_def)

lemma reauth_server_eq:
  "reauth_server =
     demo_server
       \<lparr>sessionManager := reauth_sm,
        sockets := [(''c1'', socket_of ''c1'' (Some ''alice'') 4000),
                    (''c2'', socket_of ''c2'' (Some ''bob'') 4000),
                    (''c3'', socket_of ''c3'' (Some ''bob'') 2000)]\<rparr>"
  unfolding reauth_server_def alice_on_c3_eq reauth_sm_eq
  by (simp add: handleMessage_def demo_server_def Let_def dispatch_def
      handleAuth_def token_frame_def token_env_def field_def finish_auth_def set_socket_def
      socket_of_def getUserConnections_def connected_sockets_def List.map_filter_def
      createSession_def new_session_manager_def getUserBots_def getBot_def)

text \<open>
  C6. Detaching the only connection of a session must remove the session. It does not
  when the connection sits in two sessions, which is what one socket gets by
  authenticating as \<open>alice\<close> and then as \<open>bob\<close>: the session of \<open>bob\<close> holds exactly
  \<open>c3\<close>, yet \<open>endSession\<close> ends the session of \<open>alice\<close>, stored first, and returns.
  After the socket has closed and left \<open>connections\<close>, the session of \<open>bob\<close> is still
  stored and still found by user, with \<open>c3\<close> as its only connection.
\<close>

theorem endSession_leaves_second_session:
  "sessionManager reauth_server = reauth_sm
   \<and> map_of (sessions reauth_sm) ''s2''
     = Some \<lparr>s_id = ''s2'', s_userId = ''bob'', connectionIds = {|''c3''|},
             createdAt = 2000, lastActivityAt = 2000\<rparr>
   \<and> map_of (sessions (endSession ''c3'' reauth_sm)) ''s2''
     = Some \<lparr>s_id = ''s2'', s_userId = ''bob'', connectionIds = {|''c3''|},
             createdAt = 2000, lastActivityAt = 2000\<rparr>
   \<and> getSessionByUser (endSession ''c3'' reauth_sm) ''bob''
     = Some \<lparr>s_id = ''s2'', s_userId = ''bob'', connectionIds = {|''c3''|},
             createdAt = 2000, lastActivityAt = 2000\<rparr>
   \<and> connections (handleDisconnect ''c3'' reauth_server) = [''c1'', ''c2'']
   \<and> getSessionByUser (sessionManager (handleDisconnect ''c3'' reauth_server)) ''bob''
     = Some \<lparr>s_id = ''s2'', s_userId = ''bob'', connectionIds = {|''c3''|},
             createdAt = 2000, lastActivityAt = 2000\<rparr>"
proof -
  have d: "handleDisconnect ''c3'' reauth_server
     = reauth_server\<lparr>sessionManager := endSession ''c3'' reauth_sm,
                     connections := [''c1'', ''c2''],
                     botRegistry := updateBotStatus {||} ''offline'' (botRegistry demo_server)\<rparr>"
    by (simp add: handleDisconnect_def reauth_server_eq socket_of_def demo_server_def)
  have e: "getSessionByUser (endSession ''c3'' reauth_sm) ''bob''
     = Some \<lparr>s_id = ''s2'', s_userId = ''bob'', connectionIds = {|''c3''|},
             createdAt = 2000, lastActivityAt = 2000\<rparr>"
    by (simp add: reauth_sm_eq endSession_def getSessionByUser_def)
  have m: "map_of (sessions (endSession ''c3'' reauth_sm)) ''s2''
     = Some \<lparr>s_id = ''s2'', s_userId = ''bob'', connectionIds = {|''c3''|},
             createdAt = 2000, lastActivityAt = 2000\<rparr>"
    by (simp add: reauth_sm_eq endSession_def)
  show ?thesis
    using e m by (simp add: d, simp add: reauth_server_eq, simp add: reauth_sm_eq)
qed

text \<open>
  C10. After any sequence of \<open>createSession\<close> and \<open>endSession\<close> calls on a new session
  manager, with the generated identifiers non-empty and pairwise distinct, no call has
  thrown, every entry of \<open>userSessions\<close> names a stored session of that same user with
  at least one connection, and no two stored sessions belong to the same user.
\<close>

theorem session_index_consistent:
  assumes "distinct (uuids_of cs)" and "[] \<notin> set (uuids_of cs)"
  shows "calls_ok cs new_session_manager \<and> sm_consistent (run_calls cs new_session_manager)"
proof -
  have "set (uuids_of cs) \<inter> fst ` set (sessions new_session_manager) = {}"
    by (simp add: new_session_manager_def)
  then have "calls_ok cs new_session_manager \<and> sm_inv (run_calls cs new_session_manager)"
    using run_calls_inv [OF sm_inv_new assms] by simp
  then show ?thesis
    by (simp add: sm_inv_consistent)
qed

theorem session_index_consistent_witness:
  "distinct (uuids_of [CreateSession ''c1'' ''alice'' ''s1'' 1000,
                       CreateSession ''c1'' ''bob'' ''s2'' 2000, EndSession ''c1'',
                       CreateSession ''c2'' ''bob'' ''s3'' 3000])
   \<and> [] \<notin> set (uuids_of [CreateSession ''c1'' ''alice'' ''s1'' 1000,
                       CreateSession ''c1'' ''bob'' ''s2'' 2000, EndSession ''c1'',
                       CreateSession ''c2'' ''bob'' ''s3'' 3000])
   \<and> sm_consistent (run_calls [CreateSession ''c1'' ''alice'' ''s1'' 1000,
                       CreateSession ''c1'' ''bob'' ''s2'' 2000, EndSession ''c1'',
                       CreateSession ''c2'' ''bob'' ''s3'' 3000] new_session_manager)
   \<and> run_calls [CreateSession ''c1'' ''alice'' ''s1'' 1000,
                       CreateSession ''c1'' ''bob'' ''s2'' 2000, EndSession ''c1'',
                       CreateSession ''c2'' ''bob'' ''s3'' 3000] new_session_manager
     = \<lparr>sessions = [(''s2'', \<lparr>s_id = ''s2'', s_userId = ''bob'',
                        connectionIds = {|''c2'', ''c1''|}, createdAt = 2000, lastActivityAt = 3000\<rparr>)],
        userSessions = [(''bob'', ''s2'')], tasks = [], userTasks = []\<rparr>"
proof -
  have d: "distinct (uuids_of [CreateSession ''c1'' ''alice'' ''s1'' 1000,
                       CreateSession ''c1'' ''bob'' ''s2'' 2000, EndSession ''c1'',
                       CreateSession ''c2'' ''bob'' ''s3'' 3000])"
    by simp
  have n: "[] \<notin> set (uuids_of [CreateSession ''c1'' ''alice'' ''s1'' 1000,
                       CreateSession ''c1'' ''bob'' ''s2'' 2000, EndSession ''c1'',
                       CreateSession ''c2'' ''bob'' ''s3'' 3000])"
    by simp
  have r: "run_calls [CreateSession ''c1'' ''alice'' ''s1'' 1000,
                       CreateSession ''c1'' ''bob'' ''s2'' 2000, EndSession ''c1'',
                       CreateSession ''c2'' ''bob'' ''s3'' 3000] new_session_manager
     = \<lparr>sessions = [(''s2'', \<lparr>s_id = ''s2'', s_userId = ''bob'',
                        connectionIds = {|''c2'', ''c1''|}, createdAt = 2000, lastActivityAt = 3000\<rparr>)],
        userSessions = [(''bob'', ''s2'')], tasks = [], userTasks = []\<rparr>"
    by (simp add: createSession_def endSession_def new_session_manager_def Let_def)
  show ?thesis
    using session_index_consistent [OF d n] d n r by simp
qed

subsection \<open>Tunnel manager\<close>

lemma buildConfig_demo: "buildConfig (new_tunnel_manager demo_tunnels_config) ''frp'' None = Some demo_frp_config"
  by (simp add: buildConfig_def baseConfig_def new_tunnel_manager_def demo_tunnels_config_def demo_frp_config_def)

text \<open>
  C7. While an instance for a provider is in \<open>activeTunnels\<close>, \<open>start\<close> for that
  provider returns what \<open>getStatus\<close> reports for the instance (running, with its URL,
  port and start time) and leaves the manager as it was: nothing is spawned and
  \<open>activeTunnels\<close> is unchanged.
\<close>

theorem start_idempotent:
  assumes "map_of (activeTunnels tm) provider = Some tunnel"
  shows "start provider customConfig env tm =
           (Inr \<lparr>ts_provider = provider, running = True,
                  ts_publicUrl = tc_publicUrl (tp_config tunnel),
                  ts_localPort = localPort (tp_config tunnel),
                  ts_startedAt = Some (tp_startedAt tunnel)\<rparr>, tm)
         \<and> fst (start provider customConfig env tm) = Inr (getStatus tm provider)
         \<and> spawned (snd (start provider customConfig env tm)) = spawned tm
         \<and> activeTunnels (snd (start provider customConfig env tm)) = activeTunnels tm"
  using assms by (simp add: start_def getStatus_def)

lemma scan_chunks_none:
  "list_all (\<lambda>output. m output = None) chunks \<Longrightarrow> scan_chunks m url chunks = url"
  by (induction chunks arbitrary: url) (auto)

lemma scan_chunks_append:
  "scan_chunks m url (xs @ ys) = scan_chunks m (scan_chunks m url xs) ys"
  by (induction xs arbitrary: url) (auto split: option.splits)

lemma scan_chunks_last:
  assumes "m chunk = Some u" "list_all (\<lambda>output. m output = None) post"
  shows "scan_chunks m url (pre @ [chunk] @ post) = Some u"
  using assms by (simp add: scan_chunks_append scan_chunks_none)

lemma match_frp_url_shape:
  "match_frp_url s = Some u \<Longrightarrow>
     \<exists>pre rest. s = pre @ frp_marker @ u @ rest
       \<and> 4 < length u \<and> prefix ''http'' u \<and> list_all (\<lambda>c. \<not> is_space c) u"
proof (induction s)
  case Nil
  then show ?case by (simp add: match_frp_url.simps)
next
  case (Cons c cs)
  define s where "s = c # cs"
  define t where "t = drop (length frp_marker + 4) s"
  have eq: "match_frp_url s =
     (if prefix (frp_marker @ ''http'') s \<and> non_space_run t \<noteq> []
      then Some (''http'' @ non_space_run t) else match_frp_url cs)"
    unfolding s_def t_def by (rule match_frp_url.simps)
  have res: "match_frp_url s = Some u"
    using Cons.prems by (simp add: s_def)
  show ?case
  proof (cases "prefix (frp_marker @ ''http'') s \<and> non_space_run t \<noteq> []")
    case True
    have st: "s = (frp_marker @ ''http'') @ t"
      using True unfolding t_def prefix_def by auto
    have u: "u = ''http'' @ non_space_run t"
      using res True eq by simp
    have ne: "non_space_run t \<noteq> []"
      using True by simp
    have "t = non_space_run t @ dropWhile (\<lambda>c. \<not> is_space c) t"
      by (simp add: non_space_run_def)
    then have "s = [] @ frp_marker @ u @ dropWhile (\<lambda>c. \<not> is_space c) t"
      using st u by simp
    moreover have "list_all (\<lambda>c. \<not> is_space c) u"
      unfolding u non_space_run_def list_all_iff
      by (auto simp: is_space_def dest: set_takeWhileD)
    moreover have "4 < length u" "prefix ''http'' u"
      using ne by (simp_all add: u)
    ultimately show ?thesis unfolding s_def by blast
  next
    case False
    then have "match_frp_url cs = Some u"
      using res eq by (simp split: if_splits)
    then obtain pre rest where r: "cs = pre @ frp_marker @ u @ rest"
       "4 < length u" "prefix ''http'' u" "list_all (\<lambda>c. \<not> is_space c) u"
      using Cons.IH by blast
    then have "c # cs = (c # pre) @ frp_marker @ u @ rest"
      by simp
    then show ?thesis
      using r(2,3,4) by blast
  qed
qed


lemma startFrpTunnel_dead:
  assumes "killed (child env) \<or> exitCode (child env) \<noteq> None"
  shows "startFrpTunnel cfg env tm =
     (Inl (Error ''frpc process failed to start''),
      on_close ''frp'' (child env)
        (tm\<lparr>written := written tm @ [(''/tmp/frpc-'' @ take 8 (env_uuid1 env) @ ''.ini'',
                                        generateFrpConfig cfg (take 8 (env_uuid1 env)))],
            spawned := spawned tm @ [(''frpc'', [''-c'', ''/tmp/frpc-'' @ take 8 (env_uuid1 env) @ ''.ini''])]\<rparr>))"
  using assms by (auto simp: startFrpTunnel_def Let_def)

lemma startFrpTunnel_alive:
  assumes "\<not> killed (child env)" "exitCode (child env) = None"
  shows "fst (startFrpTunnel cfg env tm) =
      Inr \<lparr>ts_provider = ''frp'', running = True,
           ts_publicUrl = scan_chunks match_frp_url
              (Some (''http://'' @ take 8 (env_uuid1 env) @ ''.frp.local''))
              (stdout_chunks (child env)),
           ts_localPort = localPort cfg, ts_startedAt = Some (return_time env)\<rparr>"
    and "map_of (activeTunnels (snd (startFrpTunnel cfg env tm))) ''frp'' =
      Some \<lparr>tp_id = take 8 (env_uuid1 env), tp_provider = ''frp'', tp_process = child env,
            tp_config = cfg\<lparr>tc_publicUrl := scan_chunks match_frp_url
              (Some (''http://'' @ take 8 (env_uuid1 env) @ ''.frp.local''))
              (stdout_chunks (child env))\<rparr>,
            tp_startedAt = spawn_time env\<rparr>"
  using assms by (simp_all add: startFrpTunnel_def Let_def update_conv')

text \<open>
  C9 (as amended). \<open>startFrpTunnel\<close> waits and then inspects the child. If the child
  was killed by the manager or has an exit code, the call fails with the error
  \<open>frpc process failed to start\<close> and registers nothing. If the child is still running
  (not killed, no exit code, no signal code), the call returns a running status with a
  URL and registers the instance with that URL. The URL is the placeholder
  \<open>http://<instanceId>.frp.local\<close> when no output chunk matched the pattern, and the
  URL captured from the last matching chunk otherwise, which is the text that follows
  \<open>start proxy success. url = \<close> in that chunk.
\<close>

theorem startFrpTunnel_outcome:
  "(killed (child env) \<or> exitCode (child env) \<noteq> None \<longrightarrow>
      fst (startFrpTunnel cfg env tm) = Inl (Error ''frpc process failed to start'')
      \<and> activeTunnels (snd (startFrpTunnel cfg env tm))
          = (if close_emitted (child env) then AList.delete ''frp'' (activeTunnels tm)
             else activeTunnels tm))
   \<and> (\<not> killed (child env1) \<and> exitCode (child env1) = None
        \<and> signalCode (child env1) = None \<longrightarrow>
      (\<exists>url tunnel.
         fst (startFrpTunnel cfg1 env1 tm1) =
           Inr \<lparr>ts_provider = ''frp'', running = True, ts_publicUrl = Some url,
                ts_localPort = localPort cfg1, ts_startedAt = Some (return_time env1)\<rparr>
         \<and> map_of (activeTunnels (snd (startFrpTunnel cfg1 env1 tm1))) ''frp'' = Some tunnel
         \<and> tc_publicUrl (tp_config tunnel) = Some url))
   \<and> (\<not> killed (child env2) \<and> exitCode (child env2) = None
        \<and> signalCode (child env2) = None
        \<and> list_all (\<lambda>output. match_frp_url output = None) (stdout_chunks (child env2)) \<longrightarrow>
      fst (startFrpTunnel cfg2 env2 tm2) =
        Inr \<lparr>ts_provider = ''frp'', running = True,
             ts_publicUrl = Some (''http://'' @ take 8 (env_uuid1 env2) @ ''.frp.local''),
             ts_localPort = localPort cfg2, ts_startedAt = Some (return_time env2)\<rparr>)
   \<and> (\<not> killed (child env3) \<and> exitCode (child env3) = None
        \<and> signalCode (child env3) = None
        \<and> stdout_chunks (child env3) = pre @ [output] @ post
        \<and> match_frp_url output = Some url
        \<and> list_all (\<lambda>output. match_frp_url output = None) post \<longrightarrow>
      fst (startFrpTunnel cfg3 env3 tm3) =
        Inr \<lparr>ts_provider = ''frp'', running = True, ts_publicUrl = Some url,
             ts_localPort = localPort cfg3, ts_startedAt = Some (return_time env3)\<rparr>
      \<and> (\<exists>before after. output = before @ frp_marker @ url @ after))"
proof (intro conjI impI)
  assume a: "killed (child env) \<or> exitCode (child env) \<noteq> None"
  show "fst (startFrpTunnel cfg env tm) = Inl (Error ''frpc process failed to start'')"
    by (simp add: startFrpTunnel_dead [OF a])
  show "activeTunnels (snd (startFrpTunnel cfg env tm))
          = (if close_emitted (child env) then AList.delete ''frp'' (activeTunnels tm)
             else activeTunnels tm)"
    by (simp add: startFrpTunnel_dead [OF a] on_close_def)
next
  assume a: "\<not> killed (child env1) \<and> exitCode (child env1) = None
        \<and> signalCode (child env1) = None"
  have "\<exists>url. scan_chunks match_frp_url
              (Some (''http://'' @ take 8 (env_uuid1 env1) @ ''.frp.local''))
              (stdout_chunks (child env1)) = Some url"
  proof -
    have "scan_chunks m (Some x) chunks \<noteq> None" for m x chunks
      by (induction chunks arbitrary: x) (auto split: option.splits)
    then show ?thesis by blast
  qed
  then obtain url where u: "scan_chunks match_frp_url
              (Some (''http://'' @ take 8 (env_uuid1 env1) @ ''.frp.local''))
              (stdout_chunks (child env1)) = Some url"
    by blast
  show "\<exists>url tunnel.
         fst (startFrpTunnel cfg1 env1 tm1) =
           Inr \<lparr>ts_provider = ''frp'', running = True, ts_publicUrl = Some url,
                ts_localPort = localPort cfg1, ts_startedAt = Some (return_time env1)\<rparr>
         \<and> map_of (activeTunnels (snd (startFrpTunnel cfg1 env1 tm1))) ''frp'' = Some tunnel
         \<and> tc_publicUrl (tp_config tunnel) = Some url"
    using a u by (simp add: startFrpTunnel_alive)
next
  assume a: "\<not> killed (child env2) \<and> exitCode (child env2) = None
        \<and> signalCode (child env2) = None
        \<and> list_all (\<lambda>output. match_frp_url output = None) (stdout_chunks (child env2))"
  show "fst (startFrpTunnel cfg2 env2 tm2) =
        Inr \<lparr>ts_provider = ''frp'', running = True,
             ts_publicUrl = Some (''http://'' @ take 8 (env_uuid1 env2) @ ''.frp.local''),
             ts_localPort = localPort cfg2, ts_startedAt = Some (return_time env2)\<rparr>"
    using a by (simp add: startFrpTunnel_alive scan_chunks_none)
next
  assume a: "\<not> killed (child env3) \<and> exitCode (child env3) = None
        \<and> signalCode (child env3) = None
        \<and> stdout_chunks (child env3) = pre @ [output] @ post
        \<and> match_frp_url output = Some url
        \<and> list_all (\<lambda>output. match_frp_url output = None) post"
  have s: "scan_chunks match_frp_url
              (Some (''http://'' @ take 8 (env_uuid1 env3) @ ''.frp.local''))
              (stdout_chunks (child env3)) = Some url"
    using a scan_chunks_last [where m = match_frp_url and chunk = "output" and u = url and post = post and pre = pre] by simp
  show "fst (startFrpTunnel cfg3 env3 tm3) =
        Inr \<lparr>ts_provider = ''frp'', running = True, ts_publicUrl = Some url,
             ts_localPort = localPort cfg3, ts_startedAt = Some (return_time env3)\<rparr>"
    using a s by (simp add: startFrpTunnel_alive)
  show "\<exists>before after. output = before @ frp_marker @ url @ after"
    using a match_frp_url_shape [of "output" url] by blast
qed

lemma match_frp_url_examples:
  "match_frp_url ''login to server success'' = None"
  "match_frp_url ''[I] start proxy success. url = http://1.2.3.4:6001 ok'' = Some ''http://1.2.3.4:6001''"
  by (simp_all add: match_frp_url.simps non_space_run_def is_space_def frp_marker_def)

theorem startFrpTunnel_outcome_witness:
  "fst (startFrpTunnel demo_frp_config (env_with (child_with [] True (Some 1)))
          (new_tunnel_manager demo_tunnels_config))
     = Inl (Error ''frpc process failed to start'')
   \<and> activeTunnels (snd (startFrpTunnel demo_frp_config (env_with (child_with [] True (Some 1)))
          (new_tunnel_manager demo_tunnels_config))) = []
   \<and> fst (startFrpTunnel demo_frp_config (env_with (child_with [''login to server success''] False None))
          (new_tunnel_manager demo_tunnels_config))
     = Inr \<lparr>ts_provider = ''frp'', running = True,
            ts_publicUrl = Some ''http://abcd1234.frp.local'',
            ts_localPort = 3000, ts_startedAt = Some 3000\<rparr>
   \<and> fst (startFrpTunnel demo_frp_config
          (env_with (child_with [''login to server success'',
               ''[I] start proxy success. url = http://1.2.3.4:6001 ok''] False None))
          (new_tunnel_manager demo_tunnels_config))
     = Inr \<lparr>ts_provider = ''frp'', running = True,
            ts_publicUrl = Some ''http://1.2.3.4:6001'',
            ts_localPort = 3000, ts_startedAt = Some 3000\<rparr>"
proof -
  let ?dead = "env_with (child_with [] True (Some 1))"
  let ?quiet = "env_with (child_with [''login to server success''] False None)"
  let ?ok = "env_with (child_with [''login to server success'',
               ''[I] start proxy success. url = http://1.2.3.4:6001 ok''] False None)"
  let ?tm = "new_tunnel_manager demo_tunnels_config"
  have h0: "killed (child ?dead) \<or> exitCode (child ?dead) \<noteq> None"
    by (simp add: env_with_def child_with_def)
  have h1: "\<not> killed (child ?quiet) \<and> exitCode (child ?quiet) = None
        \<and> signalCode (child ?quiet) = None"
    by (simp add: env_with_def child_with_def)
  have h2: "\<not> killed (child ?quiet) \<and> exitCode (child ?quiet) = None
        \<and> signalCode (child ?quiet) = None
        \<and> list_all (\<lambda>output. match_frp_url output = None) (stdout_chunks (child ?quiet))"
    by (simp add: env_with_def child_with_def match_frp_url_examples)
  have h3: "\<not> killed (child ?ok) \<and> exitCode (child ?ok) = None
        \<and> signalCode (child ?ok) = None
        \<and> stdout_chunks (child ?ok) = [''login to server success'']
            @ [''[I] start proxy success. url = http://1.2.3.4:6001 ok''] @ []
        \<and> match_frp_url ''[I] start proxy success. url = http://1.2.3.4:6001 ok''
            = Some ''http://1.2.3.4:6001''
        \<and> list_all (\<lambda>output. match_frp_url output = None) []"
    by (simp add: env_with_def child_with_def match_frp_url_examples)
  have c: "close_emitted (child ?dead)" "activeTunnels ?tm = []"
    "take 8 (env_uuid1 ?quiet) = ''abcd1234''" "localPort demo_frp_config = 3000"
    "return_time ?quiet = 3000" "return_time ?ok = 3000"
    by (simp_all add: env_with_def child_with_def new_tunnel_manager_def demo_frp_config_def)
  note t = startFrpTunnel_outcome [of ?dead demo_frp_config ?tm ?quiet demo_frp_config ?tm
      ?quiet demo_frp_config ?tm ?ok "[''login to server success'']"
      "''[I] start proxy success. url = http://1.2.3.4:6001 ok''" "[]" "''http://1.2.3.4:6001''"
      demo_frp_config ?tm]
  note p0 = t [THEN conjunct1, rule_format, OF h0]
  note p1 = t [THEN conjunct2, THEN conjunct1, rule_format, OF h1]
  note p2 = t [THEN conjunct2, THEN conjunct2, THEN conjunct1, rule_format, OF h2]
  note p3 = t [THEN conjunct2, THEN conjunct2, THEN conjunct2, rule_format, OF h3]
  show ?thesis
    using p0 p2 p3 c by simp
qed

text \<open>
  The claim as written fails: with a child that stays alive and prints nothing that
  matches, the call still reports a public URL, the placeholder.
\<close>

theorem startFrpTunnel_placeholder_counterexample:
  "stdout_chunks (child (env_with (child_with [''login to server success''] False None)))
     = [''login to server success'']
   \<and> match_frp_url ''login to server success'' = None
   \<and> startFrpTunnel demo_frp_config (env_with (child_with [''login to server success''] False None))
          (new_tunnel_manager demo_tunnels_config)
     = (Inr \<lparr>ts_provider = ''frp'', running = True,
             ts_publicUrl = Some ''http://abcd1234.frp.local'',
             ts_localPort = 3000, ts_startedAt = Some 3000\<rparr>,
        \<lparr>config = demo_tunnels_config,
         activeTunnels = [(''frp'',
            \<lparr>tp_id = ''abcd1234'', tp_provider = ''frp'',
             tp_process = child_with [''login to server success''] False None,
             tp_config = demo_frp_config\<lparr>tc_publicUrl := Some ''http://abcd1234.frp.local''\<rparr>,
             tp_startedAt = 1000\<rparr>)],
         spawned = [(''frpc'', [''-c'', ''/tmp/frpc-abcd1234.ini''])],
         written = [(''/tmp/frpc-abcd1234.ini'', generateFrpConfig demo_frp_config ''abcd1234'')],
         signalled = []\<rparr>)"
  by (simp add: startFrpTunnel_def Let_def env_with_def child_with_def new_tunnel_manager_def
      match_frp_url_examples on_close_def demo_frp_config_def)

lemma frp_running_tm_eq:
  "frp_running_tm =
       \<lparr>config = demo_tunnels_config,
         activeTunnels = [(''frp'',
            \<lparr>tp_id = ''abcd1234'', tp_provider = ''frp'',
             tp_process = child_with [''start proxy success. url = http://1.2.3.4:6001''] False None,
             tp_config = demo_frp_config\<lparr>tc_publicUrl := Some ''http://1.2.3.4:6001''\<rparr>,
             tp_startedAt = 1000\<rparr>)],
         spawned = [(''frpc'', [''-c'', ''/tmp/frpc-abcd1234.ini''])],
         written = [(''/tmp/frpc-abcd1234.ini'', generateFrpConfig demo_frp_config ''abcd1234'')],
         signalled = []\<rparr>"
proof -
  have m: "match_frp_url ''start proxy success. url = http://1.2.3.4:6001'' = Some ''http://1.2.3.4:6001''"
    by (simp add: match_frp_url.simps non_space_run_def is_space_def frp_marker_def)
  have n: "map_of (activeTunnels (new_tunnel_manager demo_tunnels_config)) ''frp'' = None"
    by (simp add: new_tunnel_manager_def)
  have st: "start ''frp'' None e (new_tunnel_manager demo_tunnels_config)
              = startFrpTunnel demo_frp_config e (new_tunnel_manager demo_tunnels_config)" for e
    by (simp add: start_def n buildConfig_demo)
  show ?thesis
    unfolding frp_running_tm_def st
    by (simp add: startFrpTunnel_def Let_def env_with_def child_with_def new_tunnel_manager_def
      m on_close_def demo_frp_config_def)
qed

theorem start_idempotent_witness:
  "map_of (activeTunnels frp_running_tm) ''frp''
     = Some \<lparr>tp_id = ''abcd1234'', tp_provider = ''frp'',
             tp_process = child_with [''start proxy success. url = http://1.2.3.4:6001''] False None,
             tp_config = demo_frp_config\<lparr>tc_publicUrl := Some ''http://1.2.3.4:6001''\<rparr>,
             tp_startedAt = 1000\<rparr>
   \<and> start ''frp'' None (env_with (child_with [] False None)) frp_running_tm
     = (Inr \<lparr>ts_provider = ''frp'', running = True, ts_publicUrl = Some ''http://1.2.3.4:6001'',
             ts_localPort = 3000, ts_startedAt = Some 1000\<rparr>, frp_running_tm)
   \<and> spawned (snd (start ''frp'' None (env_with (child_with [] False None)) frp_running_tm))
     = [(''frpc'', [''-c'', ''/tmp/frpc-abcd1234.ini''])]"
proof -
  have a: "map_of (activeTunnels frp_running_tm) ''frp''
     = Some \<lparr>tp_id = ''abcd1234'', tp_provider = ''frp'',
             tp_process = child_with [''start proxy success. url = http://1.2.3.4:6001''] False None,
             tp_config = demo_frp_config\<lparr>tc_publicUrl := Some ''http://1.2.3.4:6001''\<rparr>,
             tp_startedAt = 1000\<rparr>"
    by (simp add: frp_running_tm_eq)
  have s: "spawned frp_running_tm = [(''frpc'', [''-c'', ''/tmp/frpc-abcd1234.ini''])]"
    by (simp add: frp_running_tm_eq)
  show ?thesis
    using start_idempotent [OF a, of None "env_with (child_with [] False None)"] a s
    by (simp add: demo_frp_config_def)
qed

text \<open>
  A child ended by a signal from outside has a signal code, no exit code, and was not
  killed by the manager: the check after the wait does not see that it is gone.
\<close>

lemma startFrpTunnel_signal_death:
  "fst (startFrpTunnel demo_frp_config
          (env_with \<lparr>pid = Some 4242, stdout_chunks = [], close_emitted = True, killed = False,
                      exitCode = None, signalCode = Some ''SIGKILL''\<rparr>)
          (new_tunnel_manager demo_tunnels_config))
     = Inr \<lparr>ts_provider = ''frp'', running = True,
            ts_publicUrl = Some ''http://abcd1234.frp.local'',
            ts_localPort = 3000, ts_startedAt = Some 3000\<rparr>"
  by (simp add: startFrpTunnel_def Let_def env_with_def demo_frp_config_def)

subsection \<open>Server, authentication and ownership\<close>

lemma demo_c2: "map_of (sockets demo_server) ''c2'' = Some (socket_of ''c2'' (Some ''bob'') 4000)"
  by (simp add: demo_server_def)

text \<open>
  C1, on the server of \<open>server.js\<close>. The handlers of \<open>task\<close> and \<open>message\<close> frames
  never look at the owner of the bot. With \<open>bot_1\<close> owned by \<open>alice\<close>, a \<open>task\<close> frame
  from \<open>bob\<close> that names \<open>bot_1\<close> is answered \<open>task_status pending\<close> and the task is
  stored, and a \<open>message\<close> frame from \<open>bob\<close> to \<open>bot_1\<close> is handed to the bot and
  acknowledged as delivered. The secure server refuses both (see C4).
\<close>

theorem foreign_bot_task_and_message_accepted:
  "getBot (botRegistry demo_server) (Some ''bot_1'') = Some alice_bot
   \<and> b_userId alice_bot = ''alice''
   \<and> ws_userId (socket_of ''c2'' (Some ''bob'') 4000) = Some ''bob''
   \<and> fst (handleMessage ''c2'' (Some task_frame) demo_env demo_server)
       = [Send ''c2'' \<lparr>o_type = ''task_status'', o_data = TaskStatus ''id-1'' ''pending'',
                        o_timestamp = Some 5000, o_id = Some ''f1''\<rparr>]
   \<and> map_of (tasks (sessionManager (snd (handleMessage ''c2'' (Some task_frame) demo_env demo_server))))
         ''id-1''
       = Some \<lparr>t_id = ''id-1'', t_userId = ''bob'', t_botId = Some ''bot_1'',
               t_title = Some ''Report'', t_description = Some ''Weekly'',
               t_priority = Some ''high'', t_status = ''pending'', t_createdAt = 5000,
               t_dueDate = None\<rparr>
   \<and> fst (handleMessage ''c2'' (Some message_frame) demo_env demo_server)
       = [ToBot ''bot_1'' \<lparr>m_id = ''id-1'', m_from = ''bob'', m_to = ''bot_1'',
                            m_text = Some ''hi'', m_timestamp = 5000, m_replyTo = None,
                            m_messageId = ''id-2''\<rparr>,
          Send ''c2'' \<lparr>o_type = ''message_ack'', o_data = MessageAck ''id-1'' ''delivered'' 5000,
                        o_timestamp = Some 5000, o_id = None\<rparr>]"
proof -
  have b: "getBot (botRegistry demo_server) (Some ''bot_1'') = Some alice_bot"
    by (simp add: demo_server_def getBot_def)
  have t: "handleMessage ''c2'' (Some task_frame) demo_env demo_server
       = handleTask (socket_of ''c2'' (Some ''bob'') 5000) task_frame demo_env
           (set_socket (socket_of ''c2'' (Some ''bob'') 5000) demo_server)"
    by (simp add: handleMessage_def demo_c2 Let_def dispatch_def task_frame_def socket_of_def demo_env_def)
  have m: "handleMessage ''c2'' (Some message_frame) demo_env demo_server
       = handleMessageFrame (socket_of ''c2'' (Some ''bob'') 5000) message_frame demo_env
           (set_socket (socket_of ''c2'' (Some ''bob'') 5000) demo_server)"
    by (simp add: handleMessage_def demo_c2 Let_def dispatch_def message_frame_def socket_of_def demo_env_def)
  have a: "authenticated (socket_of ''c2'' (Some ''bob'') 5000) = Some ''bob''"
    by (simp add: authenticated_def socket_of_def)
  have i: "isBotId ''bot_1''"
    by (simp add: isBotId_def)
  show ?thesis
    unfolding t m
    using b a i
    by (simp add: handleTask_def handleMessageFrame_def task_frame_def message_frame_def
        createTask_def field_def Let_def sendFrame_def socket_of_def demo_env_def set_socket_def
        demo_server_def new_session_manager_def route_def sendMessageAck_def alice_bot_def
        update_conv')
qed


lemma authenticated_None: "ws_userId ws = None \<Longrightarrow> authenticated (ws\<lparr>lastActivity := t\<rparr>) = None"
  by (simp add: authenticated_def)

text \<open>
  C3 (as amended). On a socket whose \<open>userId\<close> is not set, a \<open>message\<close>,
  \<open>subscribe\<close> or \<open>task\<close> frame is answered with the error 401 \<open>Not authenticated\<close>
  (when the socket is open); nothing is closed, the operation is not run, and the only
  change is the refreshed \<open>lastActivity\<close> of the socket. On any socket, authenticated
  or not, a \<open>ping\<close> frame is answered with \<open>pong\<close> and a frame of unknown type with
  the error 400, with the same single change.
\<close>

theorem unauthenticated_frames:
  assumes sock: "map_of (sockets st) i = Some ws"
  shows "(ws_userId ws = None
          \<and> (f_type fr = ''message'' \<or> f_type fr = ''subscribe'' \<or> f_type fr = ''task'') \<longrightarrow>
            handleMessage i (Some fr) env st
              = (if readyState ws = OPEN
                 then [Send (ws_connectionId ws)
                         \<lparr>o_type = ''error'', o_data = ErrorData (Num 401) ''Not authenticated'',
                          o_timestamp = Some (env_now env), o_id = None\<rparr>]
                 else [],
                 st\<lparr>sockets := AList.update (ws_connectionId ws)
                                   (ws\<lparr>lastActivity := env_now env\<rparr>) (sockets st)\<rparr>))
       \<and> (f_type fr1 = ''ping'' \<longrightarrow>
            handleMessage i (Some fr1) env st
              = (if readyState ws = OPEN
                 then [Send (ws_connectionId ws)
                         \<lparr>o_type = ''pong'', o_data = Pong (env_now env),
                          o_timestamp = Some (env_now env), o_id = None\<rparr>]
                 else [],
                 st\<lparr>sockets := AList.update (ws_connectionId ws)
                                   (ws\<lparr>lastActivity := env_now env\<rparr>) (sockets st)\<rparr>))
       \<and> (f_type fr2 \<notin> set [''auth'', ''message'', ''ping'', ''subscribe'', ''unsubscribe'',
                                ''task'', ''status''] \<longrightarrow>
            handleMessage i (Some fr2) env st
              = (if readyState ws = OPEN
                 then [Send (ws_connectionId ws)
                         \<lparr>o_type = ''error'',
                          o_data = ErrorData (Num 400) (''Unknown frame type: '' @ f_type fr2),
                          o_timestamp = Some (env_now env), o_id = None\<rparr>]
                 else [],
                 st\<lparr>sockets := AList.update (ws_connectionId ws)
                                   (ws\<lparr>lastActivity := env_now env\<rparr>) (sockets st)\<rparr>))"
proof (intro conjI impI)
  assume a: "ws_userId ws = None
          \<and> (f_type fr = ''message'' \<or> f_type fr = ''subscribe'' \<or> f_type fr = ''task'')"
  then have unauth: "ws_userId ws = None"
    and "f_type fr = ''message'' \<or> f_type fr = ''subscribe'' \<or> f_type fr = ''task''"
    by simp_all
  then show "handleMessage i (Some fr) env st
              = (if readyState ws = OPEN
                 then [Send (ws_connectionId ws)
                         \<lparr>o_type = ''error'', o_data = ErrorData (Num 401) ''Not authenticated'',
                          o_timestamp = Some (env_now env), o_id = None\<rparr>]
                 else [],
                 st\<lparr>sockets := AList.update (ws_connectionId ws)
                                   (ws\<lparr>lastActivity := env_now env\<rparr>) (sockets st)\<rparr>)"
    using sock authenticated_None [OF unauth]
    by (auto simp: handleMessage_def Let_def dispatch_def handleMessageFrame_def
        handleSubscribe_def handleTask_def sendError_def sendFrame_def set_socket_def)
next
  assume "f_type fr1 = ''ping''"
  then show "handleMessage i (Some fr1) env st
              = (if readyState ws = OPEN
                 then [Send (ws_connectionId ws)
                         \<lparr>o_type = ''pong'', o_data = Pong (env_now env),
                          o_timestamp = Some (env_now env), o_id = None\<rparr>]
                 else [],
                 st\<lparr>sockets := AList.update (ws_connectionId ws)
                                   (ws\<lparr>lastActivity := env_now env\<rparr>) (sockets st)\<rparr>)"
    using sock
    by (simp add: handleMessage_def Let_def dispatch_def sendFrame_def set_socket_def)
next
  assume "f_type fr2 \<notin> set [''auth'', ''message'', ''ping'', ''subscribe'', ''unsubscribe'',
                                ''task'', ''status'']"
  then show "handleMessage i (Some fr2) env st
              = (if readyState ws = OPEN
                 then [Send (ws_connectionId ws)
                         \<lparr>o_type = ''error'',
                          o_data = ErrorData (Num 400) (''Unknown frame type: '' @ f_type fr2),
                          o_timestamp = Some (env_now env), o_id = None\<rparr>]
                 else [],
                 st\<lparr>sockets := AList.update (ws_connectionId ws)
                                   (ws\<lparr>lastActivity := env_now env\<rparr>) (sockets st)\<rparr>)"
    using sock
    by (simp add: handleMessage_def Let_def dispatch_def sendError_def sendFrame_def set_socket_def)
qed

lemma demo_c3: "map_of (sockets demo_server) ''c3'' = Some (socket_of ''c3'' None 4000)"
  by (simp add: demo_server_def)

text \<open>
  The claim as written fails: an unauthenticated connection that sends \<open>ping\<close>, a frame
  whose type is not \<open>auth\<close>, is answered with \<open>pong\<close> and not with an error.
\<close>

theorem unauthenticated_ping_counterexample:
  "ws_userId (socket_of ''c3'' None 4000) = None
   \<and> map_of (sockets demo_server) ''c3'' = Some (socket_of ''c3'' None 4000)
   \<and> f_type ping_frame \<noteq> ''auth''
   \<and> fst (handleMessage ''c3'' (Some ping_frame) demo_env demo_server)
       = [Send ''c3'' \<lparr>o_type = ''pong'', o_data = Pong 5000,
                        o_timestamp = Some 5000, o_id = None\<rparr>]"
  by (simp add: demo_c3 handleMessage_def Let_def dispatch_def sendFrame_def ping_frame_def
      socket_of_def demo_env_def)

theorem unauthenticated_frames_witness:
  "fst (handleMessage ''c3'' (Some task_frame) demo_env demo_server)
     = [Send ''c3'' \<lparr>o_type = ''error'', o_data = ErrorData (Num 401) ''Not authenticated'',
                      o_timestamp = Some 5000, o_id = None\<rparr>]
   \<and> snd (handleMessage ''c3'' (Some task_frame) demo_env demo_server)
     = demo_server\<lparr>sockets := [(''c1'', socket_of ''c1'' (Some ''alice'') 4000),
                 (''c2'', socket_of ''c2'' (Some ''bob'') 4000),
                 (''c3'', socket_of ''c3'' None 5000)]\<rparr>
   \<and> fst (handleMessage ''c3'' (Some ping_frame) demo_env demo_server)
     = [Send ''c3'' \<lparr>o_type = ''pong'', o_data = Pong 5000,
                      o_timestamp = Some 5000, o_id = None\<rparr>]
   \<and> fst (handleMessage ''c2'' (Some ping_frame) demo_env demo_server)
     = [Send ''c2'' \<lparr>o_type = ''pong'', o_data = Pong 5000,
                      o_timestamp = Some 5000, o_id = None\<rparr>]
   \<and> fst (handleMessage ''c3'' (Some \<lparr>f_type = ''hello'', f_data = None, f_id = None\<rparr>)
            demo_env demo_server)
     = [Send ''c3'' \<lparr>o_type = ''error'',
                      o_data = ErrorData (Num 400) ''Unknown frame type: hello'',
                      o_timestamp = Some 5000, o_id = None\<rparr>]"
proof -
  have u: "ws_userId (socket_of ''c3'' None 4000) = None"
    by (simp add: socket_of_def)
  have h0: "ws_userId (socket_of ''c3'' None 4000) = None
            \<and> (f_type task_frame = ''message'' \<or> f_type task_frame = ''subscribe''
                \<or> f_type task_frame = ''task'')"
    by (simp add: task_frame_def socket_of_def)
  have h1: "f_type ping_frame = ''ping''"
    by (simp add: ping_frame_def)
  have h2: "f_type \<lparr>f_type = ''hello'', f_data = None, f_id = None\<rparr>
              \<notin> set [''auth'', ''message'', ''ping'', ''subscribe'', ''unsubscribe'',
                      ''task'', ''status'']"
    by simp
  note t = unauthenticated_frames [OF demo_c3, of task_frame demo_env ping_frame
      "\<lparr>f_type = ''hello'', f_data = None, f_id = None\<rparr>"]
  note p0 = t [THEN conjunct1, rule_format, OF h0]
  note p1 = t [THEN conjunct2, THEN conjunct1, rule_format, OF h1]
  note p2 = t [THEN conjunct2, THEN conjunct2, rule_format, OF h2]
  note q1 = unauthenticated_frames [OF demo_c2, of task_frame demo_env ping_frame ping_frame,
      THEN conjunct2, THEN conjunct1, rule_format, OF h1]
  have s: "AList.update ''c3'' (socket_of ''c3'' None 4000\<lparr>lastActivity := 5000\<rparr>)
             (sockets demo_server)
           = [(''c1'', socket_of ''c1'' (Some ''alice'') 4000),
                 (''c2'', socket_of ''c2'' (Some ''bob'') 4000),
                 (''c3'', socket_of ''c3'' None 5000)]"
    by (simp add: demo_server_def socket_of_def)
  show ?thesis
    unfolding p0 p1 p2 q1
    using s by (simp add: socket_of_def demo_env_def)
qed


lemma verifyBotOwnership_absent:
  "map_of (sec_bots st) botId = None \<Longrightarrow> fst (verifyBotOwnership u botId st) = False"
  by (simp add: verifyBotOwnership_def getUserData_def Let_def split: option.splits prod.splits)

lemma verifyBotOwnership_foreign:
  "map_of (sec_bots st) botId = Some b \<Longrightarrow> b_userId b \<noteq> u
     \<Longrightarrow> fst (verifyBotOwnership u botId st) = False"
  by (simp add: verifyBotOwnership_def getUserData_def Let_def split: option.splits prod.splits)

lemma verifyBotOwnership_tasks:
  "sec_tasks (snd (verifyBotOwnership u botId st)) = sec_tasks st"
  by (simp add: verifyBotOwnership_def getUserData_def Let_def split: option.splits prod.splits)

lemma secure_denied:
  assumes "authenticated ws = Some u" "fst (verifyBotOwnership u botId st) = False" "botId \<noteq> []"
  shows "field (data_or_empty fr) ''to'' = Some botId \<Longrightarrow>
           fst (handleMessageFrame_secure ws fr env st)
             = sendError_secure ws 403 ''Bot not found or access denied''"
    and "field (data_or_empty fr) ''botId'' = Some botId \<Longrightarrow>
           fst (handleTask_secure ws fr env st)
             = sendError_secure ws 403 ''Bot not found or access denied''
           \<and> sec_tasks (snd (handleTask_secure ws fr env st)) = sec_tasks st"
    and "field (data_or_empty fr) ''botId'' = Some botId \<Longrightarrow>
           fst (handleSubscribe_secure ws fr env st)
             = sendError_secure ws 403 ''Bot not found or access denied''
           \<and> fst (snd (handleSubscribe_secure ws fr env st)) = ws"
  using assms verifyBotOwnership_tasks [of u botId st]
  by (auto simp: handleMessageFrame_secure_def handleTask_secure_def handleSubscribe_secure_def
      split: prod.splits)

text \<open>
  C4. For an authenticated user, the reply to a reference to a bot that does not exist
  and the reply to a reference to a bot of another user are the same frame: the error
  403 \<open>Bot not found or access denied\<close>. This holds for \<open>handleSubscribe\<close> of the
  server, which also leaves the server unchanged in both cases, and for the
  \<open>message\<close>, \<open>task\<close> and \<open>subscribe\<close> handlers of the secure server, where no task is
  stored either.
\<close>

theorem ownership_denial_uniform:
  assumes auth: "authenticated ws = Some u"
  shows "(f_data fr = Some d \<and> getBot reg1 (field d ''botId'') = None
            \<and> getBot reg2 (field d ''botId'') = Some b \<and> b_userId b \<noteq> u \<longrightarrow>
           handleSubscribe ws fr env (st\<lparr>botRegistry := reg1\<rparr>)
             = (sendError ws 403 ''Bot not found or access denied'' (env_now env),
                st\<lparr>botRegistry := reg1\<rparr>)
           \<and> handleSubscribe ws fr env (st\<lparr>botRegistry := reg2\<rparr>)
             = (sendError ws 403 ''Bot not found or access denied'' (env_now env),
                st\<lparr>botRegistry := reg2\<rparr>))
       \<and> (botId \<noteq> [] \<and> map_of (sec_bots s1) botId = None
            \<and> map_of (sec_bots s2) botId = Some b' \<and> b_userId b' \<noteq> u \<longrightarrow>
           (field (data_or_empty fr1) ''to'' = Some botId \<longrightarrow>
              fst (handleMessageFrame_secure ws fr1 env s1)
                = sendError_secure ws 403 ''Bot not found or access denied''
              \<and> fst (handleMessageFrame_secure ws fr1 env s2)
                = sendError_secure ws 403 ''Bot not found or access denied'')
           \<and> (field (data_or_empty fr2) ''botId'' = Some botId \<longrightarrow>
              fst (handleTask_secure ws fr2 env s1)
                = sendError_secure ws 403 ''Bot not found or access denied''
              \<and> fst (handleTask_secure ws fr2 env s2)
                = sendError_secure ws 403 ''Bot not found or access denied''
              \<and> sec_tasks (snd (handleTask_secure ws fr2 env s1)) = sec_tasks s1
              \<and> sec_tasks (snd (handleTask_secure ws fr2 env s2)) = sec_tasks s2
              \<and> fst (handleSubscribe_secure ws fr2 env s1)
                = sendError_secure ws 403 ''Bot not found or access denied''
              \<and> fst (handleSubscribe_secure ws fr2 env s2)
                = sendError_secure ws 403 ''Bot not found or access denied''))"
proof (intro conjI impI)
  assume a: "f_data fr = Some d \<and> getBot reg1 (field d ''botId'') = None
            \<and> getBot reg2 (field d ''botId'') = Some b \<and> b_userId b \<noteq> u"
  show "handleSubscribe ws fr env (st\<lparr>botRegistry := reg1\<rparr>)
             = (sendError ws 403 ''Bot not found or access denied'' (env_now env),
                st\<lparr>botRegistry := reg1\<rparr>)"
    using a auth by (simp add: handleSubscribe_def Let_def)
  show "handleSubscribe ws fr env (st\<lparr>botRegistry := reg2\<rparr>)
             = (sendError ws 403 ''Bot not found or access denied'' (env_now env),
                st\<lparr>botRegistry := reg2\<rparr>)"
    using a auth by (simp add: handleSubscribe_def Let_def)
next
  assume a: "botId \<noteq> [] \<and> map_of (sec_bots s1) botId = None
            \<and> map_of (sec_bots s2) botId = Some b' \<and> b_userId b' \<noteq> u"
  have v1: "fst (verifyBotOwnership u botId s1) = False"
    using a by (simp add: verifyBotOwnership_absent)
  have v2: "fst (verifyBotOwnership u botId s2) = False"
    using a verifyBotOwnership_foreign [of s2 botId b' u] by simp
  have n: "botId \<noteq> []" using a by simp
  {
    assume f: "field (data_or_empty fr1) ''to'' = Some botId"
    show "fst (handleMessageFrame_secure ws fr1 env s1)
                = sendError_secure ws 403 ''Bot not found or access denied''"
      using secure_denied(1) [OF auth v1 n f] .
    show "fst (handleMessageFrame_secure ws fr1 env s2)
                = sendError_secure ws 403 ''Bot not found or access denied''"
      using secure_denied(1) [OF auth v2 n f] .
  }
  {
    assume f: "field (data_or_empty fr2) ''botId'' = Some botId"
    show "fst (handleTask_secure ws fr2 env s1)
                = sendError_secure ws 403 ''Bot not found or access denied''"
      using secure_denied(2) [OF auth v1 n f] by simp
    show "fst (handleTask_secure ws fr2 env s2)
                = sendError_secure ws 403 ''Bot not found or access denied''"
      using secure_denied(2) [OF auth v2 n f] by simp
    show "sec_tasks (snd (handleTask_secure ws fr2 env s1)) = sec_tasks s1"
      using secure_denied(2) [OF auth v1 n f] by simp
    show "sec_tasks (snd (handleTask_secure ws fr2 env s2)) = sec_tasks s2"
      using secure_denied(2) [OF auth v2 n f] by simp
    show "fst (handleSubscribe_secure ws fr2 env s1)
                = sendError_secure ws 403 ''Bot not found or access denied''"
      using secure_denied(3) [OF auth v1 n f] by simp
    show "fst (handleSubscribe_secure ws fr2 env s2)
                = sendError_secure ws 403 ''Bot not found or access denied''"
      using secure_denied(3) [OF auth v2 n f] by simp
  }
qed


theorem ownership_denial_uniform_witness:
  "handleSubscribe (socket_of ''c2'' (Some ''bob'') 4000) subscribe_frame demo_env
       (demo_server\<lparr>botRegistry := \<lparr>bots = [], userBots = []\<rparr>\<rparr>)
     = ([Send ''c2'' \<lparr>o_type = ''error'',
                       o_data = ErrorData (Num 403) ''Bot not found or access denied'',
                       o_timestamp = Some 5000, o_id = None\<rparr>],
        demo_server\<lparr>botRegistry := \<lparr>bots = [], userBots = []\<rparr>\<rparr>)
   \<and> handleSubscribe (socket_of ''c2'' (Some ''bob'') 4000) subscribe_frame demo_env
       (demo_server\<lparr>botRegistry := botRegistry demo_server\<rparr>)
     = ([Send ''c2'' \<lparr>o_type = ''error'',
                       o_data = ErrorData (Num 403) ''Bot not found or access denied'',
                       o_timestamp = Some 5000, o_id = None\<rparr>],
        demo_server\<lparr>botRegistry := botRegistry demo_server\<rparr>)
   \<and> fst (handleMessageFrame_secure (socket_of ''c2'' (Some ''bob'') 4000) message_frame demo_env
          (demo_secure []))
     = [Send ''c2'' \<lparr>o_type = ''error'',
                      o_data = ErrorData (Num 403) ''Bot not found or access denied'',
                      o_timestamp = None, o_id = None\<rparr>]
   \<and> fst (handleMessageFrame_secure (socket_of ''c2'' (Some ''bob'') 4000) message_frame demo_env
          (demo_secure [(''bot_1'', alice_bot)]))
     = [Send ''c2'' \<lparr>o_type = ''error'',
                      o_data = ErrorData (Num 403) ''Bot not found or access denied'',
                      o_timestamp = None, o_id = None\<rparr>]
   \<and> fst (handleTask_secure (socket_of ''c2'' (Some ''bob'') 4000) task_frame demo_env
          (demo_secure [(''bot_1'', alice_bot)]))
     = [Send ''c2'' \<lparr>o_type = ''error'',
                      o_data = ErrorData (Num 403) ''Bot not found or access denied'',
                      o_timestamp = None, o_id = None\<rparr>]
   \<and> sec_tasks (snd (handleTask_secure (socket_of ''c2'' (Some ''bob'') 4000) task_frame demo_env
          (demo_secure [(''bot_1'', alice_bot)]))) = []"
proof -
  let ?ws = "socket_of ''c2'' (Some ''bob'') 4000"
  have auth: "authenticated ?ws = Some ''bob''"
    by (simp add: authenticated_def socket_of_def)
  have h0: "f_data subscribe_frame = Some [(''botId'', ''bot_1'')]
            \<and> getBot \<lparr>bots = [], userBots = []\<rparr> (field [(''botId'', ''bot_1'')] ''botId'') = None
            \<and> getBot (botRegistry demo_server) (field [(''botId'', ''bot_1'')] ''botId'') = Some alice_bot
            \<and> b_userId alice_bot \<noteq> ''bob''"
    by (simp add: subscribe_frame_def getBot_def field_def demo_server_def alice_bot_def)
  have h1: "''bot_1'' \<noteq> [] \<and> map_of (sec_bots (demo_secure [])) ''bot_1'' = None
            \<and> map_of (sec_bots (demo_secure [(''bot_1'', alice_bot)])) ''bot_1'' = Some alice_bot
            \<and> b_userId alice_bot \<noteq> ''bob''"
    by (simp add: demo_secure_def alice_bot_def)
  have h2: "field (data_or_empty message_frame) ''to'' = Some ''bot_1''"
    by (simp add: data_or_empty_def message_frame_def field_def)
  have h3: "field (data_or_empty task_frame) ''botId'' = Some ''bot_1''"
    by (simp add: data_or_empty_def task_frame_def field_def)
  note t = ownership_denial_uniform [OF auth, of subscribe_frame "[(''botId'', ''bot_1'')]"
      "\<lparr>bots = [], userBots = []\<rparr>" "botRegistry demo_server" alice_bot demo_env demo_server
      "''bot_1''" "demo_secure []" "demo_secure [(''bot_1'', alice_bot)]" alice_bot
      message_frame task_frame]
  note p0 = t [THEN conjunct1, rule_format, OF h0]
  note p1 = t [THEN conjunct2, rule_format, OF h1]
  note p2 = p1 [THEN conjunct1, rule_format, OF h2]
  note p3 = p1 [THEN conjunct2, rule_format, OF h3]
  have e: "sendError ?ws 403 ''Bot not found or access denied'' (env_now demo_env)
           = [Send ''c2'' \<lparr>o_type = ''error'',
                       o_data = ErrorData (Num 403) ''Bot not found or access denied'',
                       o_timestamp = Some 5000, o_id = None\<rparr>]"
    by (simp add: sendError_def sendFrame_def socket_of_def demo_env_def)
  have e': "sendError_secure ?ws 403 ''Bot not found or access denied''
           = [Send ''c2'' \<lparr>o_type = ''error'',
                       o_data = ErrorData (Num 403) ''Bot not found or access denied'',
                       o_timestamp = None, o_id = None\<rparr>]"
    by (simp add: sendError_secure_def sendFrame_def socket_of_def)
  have z: "sec_tasks (demo_secure [(''bot_1'', alice_bot)]) = []"
    by (simp add: demo_secure_def)
  show ?thesis
    using p0 p2 p3 e e' z by simp
qed


lemma split_forged: "split_on CHR ''_'' ''t2b_alice_0000000000000000'' = [''t2b'', ''alice'', ''0000000000000000'']"
  by simp

text \<open>
  C2, on \<open>AuthService.validateApiKey\<close>. A key that is in no key store and carries no
  signature of any kind is valid as long as it reads \<open>t2b_<userId>_<anything>\<close> and is
  long enough: the user id is read out of the key. On the server of \<open>server.js\<close> an
  unauthenticated connection that presents such a key is authenticated as \<open>alice\<close> and
  receives her bots.
\<close>

theorem validateApiKey_accepts_unsigned_key:
  "validateApiKey sha256 \<lparr>apiKeys = []\<rparr> ''t2b_alice_0000000000000000''
     = \<lparr>valid = True, v_userId = Some ''alice'',
        v_permissions = Some [''read'', ''write'', ''bots'']\<rparr>
   \<and> fst (handleMessage ''c3'' (Some forged_auth_frame) demo_env demo_server)
     = [Send ''c3'' \<lparr>o_type = ''auth_ok'', o_data = AuthOk ''alice'' ''c3'' ''24h'',
                      o_timestamp = Some 5000, o_id = Some ''f0''\<rparr>,
        Send ''c3'' \<lparr>o_type = ''status'', o_data = BotsList [alice_bot],
                      o_timestamp = Some 5000, o_id = None\<rparr>]"
proof -
  have v: "validateApiKey sha256 \<lparr>apiKeys = []\<rparr> ''t2b_alice_0000000000000000''
     = \<lparr>valid = True, v_userId = Some ''alice'',
        v_permissions = Some [''read'', ''write'', ''bots'']\<rparr>" for sha256
    by (simp add: validateApiKey_def extractUserIdFromKey_def split_forged Let_def)
  have a: "authService demo_server = \<lparr>apiKeys = []\<rparr>"
    by (simp add: demo_server_def)
  have h: "handleMessage ''c3'' (Some forged_auth_frame) demo_env demo_server
       = finish_auth (socket_of ''c3'' None 5000) ''alice'' forged_auth_frame demo_env
           (set_socket (socket_of ''c3'' None 5000) demo_server)"
    by (simp add: handleMessage_def demo_c3 Let_def dispatch_def handleAuth_def
        forged_auth_frame_def field_def set_socket_def a v socket_of_def demo_env_def)
  have f: "fst (finish_auth (socket_of ''c3'' None 5000) ''alice'' forged_auth_frame demo_env
           (set_socket (socket_of ''c3'' None 5000) demo_server))
     = [Send ''c3'' \<lparr>o_type = ''auth_ok'', o_data = AuthOk ''alice'' ''c3'' ''24h'',
                      o_timestamp = Some 5000, o_id = Some ''f0''\<rparr>,
        Send ''c3'' \<lparr>o_type = ''status'', o_data = BotsList [alice_bot],
                      o_timestamp = Some 5000, o_id = None\<rparr>]"
    by (simp add: finish_auth_def Let_def set_socket_def demo_server_def socket_of_def
        getUserConnections_def connected_sockets_def List.map_filter_def createSession_def
        new_session_manager_def getUserBots_def getBot_def sendFrame_def demo_env_def
        forged_auth_frame_def)
  show ?thesis
    using v h f by simp
qed

lemma split_on_nonempty: "split_on d s \<noteq> []"
  by (induction s) (auto split: list.splits)

lemma join_split_on: "join_with d (split_on d s) = s"
proof (induction s)
  case Nil
  show ?case by simp
next
  case (Cons c cs)
  obtain p ps where p: "split_on d cs = p # ps"
    using split_on_nonempty [of d cs] by (cases "split_on d cs") auto
  show ?case
  proof (cases "c = d")
    case True
    then show ?thesis using Cons p by simp
  next
    case False
    then show ?thesis using Cons p by (cases ps) auto
  qed
qed

text \<open>
  The secure server's \<open>validateApiKey\<close> does what C2 asks: it returns a user id only
  for the key whose signature is the first 16 characters of the hash of the user id and
  the secret.
\<close>

lemma validateApiKey_secure_sound:
  assumes "validateApiKey_secure sha256 key secret = Some u"
  shows "u \<noteq> [] \<and> key = ''t2b_'' @ u @ ''_'' @ take 16 (sha256 (u @ '':'' @ secret))"
proof -
  define parts where "parts = split_on CHR ''_'' key"
  have l: "length parts = 3" and p0: "parts ! 0 = ''t2b''" and p1: "parts ! 1 = u"
    and ne: "u \<noteq> []" and p2: "parts ! 2 = take 16 (sha256 (u @ '':'' @ secret))"
    using assms unfolding validateApiKey_secure_def parts_def [symmetric] Let_def
    by (auto split: if_splits)
  obtain a b c where abc: "parts = [a, b, c]"
    using l by (cases parts; cases "tl parts"; cases "tl (tl parts)") auto
  have "key = join_with CHR ''_'' parts"
    unfolding parts_def by (simp add: join_split_on)
  then show ?thesis
    using abc p0 p1 p2 ne by simp
qed


lemma sockets_ok_lookup:
  "sockets_ok st \<Longrightarrow> map_of (sockets st) i = Some ws \<Longrightarrow> ws_connectionId ws = i"
  using map_of_SomeD [of "sockets st" i ws] by (fastforce simp: sockets_ok_def list_all_iff)

lemma sockets_ok_set_socket:
  assumes "sockets_ok st"
  shows "sockets_ok (set_socket ws st)"
proof -
  have "list_all (\<lambda>e. ws_connectionId (snd e) = fst e) (AList.update (ws_connectionId ws) ws al)"
    if "list_all (\<lambda>e. ws_connectionId (snd e) = fst e) al" for al
    using that by (induction al) auto
  then show ?thesis
    using assms by (simp add: sockets_ok_def set_socket_def)
qed

lemma heartbeat_socket_keeps:
  "heartbeat_socket t limit ws = (acts, ws') \<Longrightarrow>
     ws_connectionId ws' = ws_connectionId ws \<and> lastActivity ws' = lastActivity ws"
  by (auto simp: heartbeat_socket_def close_socket_def split: if_splits)

lemma heartbeat_socket_closes:
  "heartbeat_socket t limit ws = (acts, ws') \<Longrightarrow> Close j code reason \<in> set acts \<Longrightarrow>
     j = ws_connectionId ws \<and> code = 4000 \<and> reason = ''Connection timeout''
     \<and> t - lastActivity ws > limit"
  by (auto simp: heartbeat_socket_def sendFrame_def split: if_splits)

lemma heartbeat_socket_pings:
  "heartbeat_socket t limit ws = (acts, ws') \<Longrightarrow> Ping j \<in> set acts \<Longrightarrow>
     j = ws_connectionId ws \<and> \<not> t - lastActivity ws > limit"
  by (auto simp: heartbeat_socket_def sendFrame_def split: if_splits)

lemma heartbeat_socket_stale:
  "t - lastActivity ws > limit \<Longrightarrow>
     Close (ws_connectionId ws) 4000 ''Connection timeout'' \<in> set (fst (heartbeat_socket t limit ws))"
  by (simp add: heartbeat_socket_def)

lemma heartbeat_loop_step:
  assumes "map_of (sockets st) i = Some ws"
  shows "heartbeat_loop t (i # rest) st =
           (fst (heartbeat_socket t (timeout (srv_sessions st) * 1000) ws)
              @ fst (heartbeat_loop t rest
                  (set_socket (snd (heartbeat_socket t (timeout (srv_sessions st) * 1000) ws)) st)),
            snd (heartbeat_loop t rest
                  (set_socket (snd (heartbeat_socket t (timeout (srv_sessions st) * 1000) ws)) st)))"
  using assms by (simp add: Let_def split: prod.splits)

lemma set_socket_fields:
  "srv_sessions (set_socket ws st) = srv_sessions st"
  "connections (set_socket ws st) = connections st"
  "map_of (sockets (set_socket ws st)) j
     = (if j = ws_connectionId ws then Some ws else map_of (sockets st) j)"
  by (simp_all add: set_socket_def update_conv')

text \<open>What a run of the loop does for one socket depends on that socket alone.\<close>

lemma heartbeat_loop_actions:
  assumes "sockets_ok st"
  shows "(Close j code reason \<in> set (fst (heartbeat_loop t ids st)) \<longrightarrow>
            code = 4000 \<and> reason = ''Connection timeout''
            \<and> (\<exists>ws. map_of (sockets st) j = Some ws
                  \<and> t - lastActivity ws > timeout (srv_sessions st) * 1000))
         \<and> (Ping j \<in> set (fst (heartbeat_loop t ids st)) \<longrightarrow>
            (\<exists>ws. map_of (sockets st) j = Some ws
                  \<and> \<not> t - lastActivity ws > timeout (srv_sessions st) * 1000))
         \<and> (\<forall>ws. j \<in> set ids \<and> map_of (sockets st) j = Some ws
                  \<and> t - lastActivity ws > timeout (srv_sessions st) * 1000 \<longrightarrow>
               Close j 4000 ''Connection timeout'' \<in> set (fst (heartbeat_loop t ids st)))"
  using assms
proof (induction ids arbitrary: st)
  case Nil
  then show ?case by simp
next
  case (Cons i rest)
  show ?case
  proof (cases "map_of (sockets st) i")
    case None
    then have e: "heartbeat_loop t (i # rest) st = heartbeat_loop t rest st"
      by simp
    show ?thesis
      unfolding e using Cons.IH [OF Cons.prems] None by auto
  next
    case (Some ws)
    define limit where "limit = timeout (srv_sessions st) * 1000"
    obtain acts ws' where h: "heartbeat_socket t limit ws = (acts, ws')"
      by (cases "heartbeat_socket t limit ws")
    define st1 where "st1 = set_socket ws' st"
    have id: "ws_connectionId ws = i"
      using Cons.prems Some by (rule sockets_ok_lookup)
    have k: "ws_connectionId ws' = i" "lastActivity ws' = lastActivity ws"
      using heartbeat_socket_keeps [OF h] id by simp_all
    have ok1: "sockets_ok st1"
      unfolding st1_def using Cons.prems by (rule sockets_ok_set_socket)
    have lim1: "timeout (srv_sessions st1) * 1000 = limit"
      by (simp add: st1_def limit_def set_socket_fields)
    have look: "map_of (sockets st1) j = (if j = i then Some ws' else map_of (sockets st) j)" for j
      by (simp add: st1_def set_socket_fields k)
    have e: "fst (heartbeat_loop t (i # rest) st) = acts @ fst (heartbeat_loop t rest st1)"
      using heartbeat_loop_step [OF Some, of t rest] h
      by (simp add: limit_def [symmetric] st1_def)
    note IH = Cons.IH [OF ok1, unfolded lim1]
    have c: "code = 4000 \<and> reason = ''Connection timeout''
            \<and> (\<exists>ws. map_of (sockets st) j = Some ws \<and> t - lastActivity ws > limit)"
      if "Close j code reason \<in> set (fst (heartbeat_loop t (i # rest) st))"
    proof -
      from that consider "Close j code reason \<in> set acts"
        | "Close j code reason \<in> set (fst (heartbeat_loop t rest st1))"
        unfolding e by auto
      then show ?thesis
      proof cases
        case 1
        then show ?thesis
          using heartbeat_socket_closes [OF h 1] Some id by auto
      next
        case 2
        then obtain w where w: "code = 4000" "reason = ''Connection timeout''"
          "map_of (sockets st1) j = Some w" "t - lastActivity w > limit"
          using IH by blast
        show ?thesis
        proof (cases "j = i")
          case True
          then show ?thesis using w look [of j] k Some by auto
        next
          case False
          then show ?thesis using w look [of j] by auto
        qed
      qed
    qed
    have p: "\<exists>ws. map_of (sockets st) j = Some ws \<and> \<not> t - lastActivity ws > limit"
      if "Ping j \<in> set (fst (heartbeat_loop t (i # rest) st))"
    proof -
      from that consider "Ping j \<in> set acts"
        | "Ping j \<in> set (fst (heartbeat_loop t rest st1))"
        unfolding e by auto
      then show ?thesis
      proof cases
        case 1
        then show ?thesis
          using heartbeat_socket_pings [OF h 1] Some id by auto
      next
        case 2
        then obtain w where w: "map_of (sockets st1) j = Some w" "\<not> t - lastActivity w > limit"
          using IH by blast
        show ?thesis
        proof (cases "j = i")
          case True
          then show ?thesis using w look [of j] k Some by auto
        next
          case False
          then show ?thesis using w look [of j] by auto
        qed
      qed
    qed
    have s: "Close j 4000 ''Connection timeout'' \<in> set (fst (heartbeat_loop t (i # rest) st))"
      if a: "j \<in> set (i # rest)" "map_of (sockets st) j = Some w" "t - lastActivity w > limit" for w
    proof (cases "j = i")
      case True
      then have "w = ws" using a Some by simp
      then have "Close i 4000 ''Connection timeout'' \<in> set acts"
        using heartbeat_socket_stale [of limit t ws] a h id by simp
      then show ?thesis unfolding e using True by simp
    next
      case False
      then have "j \<in> set rest" "map_of (sockets st1) j = Some w"
        using a look [of j] by auto
      then have "Close j 4000 ''Connection timeout'' \<in> set (fst (heartbeat_loop t rest st1))"
        using IH a(3) by blast
      then show ?thesis unfolding e by simp
    qed
    show ?thesis
      unfolding limit_def [symmetric] using c p s by blast
  qed
qed

lemma stop_loop_closes:
  "Close j code reason \<in> set (fst (stop_loop t ids st)) \<Longrightarrow>
     code = 1001 \<and> reason = ''Server shutting down''"
proof (induction ids arbitrary: st)
  case Nil
  then show ?case by simp
next
  case (Cons i rest)
  show ?case
  proof (cases "map_of (sockets st) i")
    case None
    then show ?thesis using Cons by simp
  next
    case (Some ws)
    then show ?thesis
      using Cons.prems Cons.IH [of "set_socket (close_socket ws) st"]
      by (auto simp: stop_socket_def sendError_def sendFrame_def Let_def split: prod.splits if_splits)
  qed
qed

text \<open>
  C8. A connection whose \<open>lastActivity\<close> is older than the session timeout (seconds,
  compared in milliseconds) is closed by the heartbeat with code 4000 and reason
  \<open>Connection timeout\<close>; it is not pinged and not closed with 1001. Every close of the
  heartbeat carries 4000 \<open>Connection timeout\<close>, every close of \<open>stop\<close> carries 1001
  \<open>Server shutting down\<close>.
\<close>

theorem heartbeat_timeout_close:
  assumes ok: "sockets_ok st"
    and conn: "i \<in> set (connections st)"
    and sock: "map_of (sockets st) i = Some ws"
    and stale: "t - lastActivity ws > timeout (srv_sessions st) * 1000"
  shows "Close i 4000 ''Connection timeout'' \<in> set (fst (heartbeat t st))
         \<and> Close i 1001 ''Server shutting down'' \<notin> set (fst (heartbeat t st))
         \<and> Ping i \<notin> set (fst (heartbeat t st))
         \<and> (\<forall>j code reason. Close j code reason \<in> set (fst (heartbeat t st)) \<longrightarrow>
               code = 4000 \<and> reason = ''Connection timeout'')
         \<and> (\<forall>j code reason. Close j code reason \<in> set (fst (stop_server t' st)) \<longrightarrow>
               code = 1001 \<and> reason = ''Server shutting down'')"
proof -
  note h = heartbeat_loop_actions [OF ok, of _ _ _ t "connections st"]
  have a: "Close i 4000 ''Connection timeout'' \<in> set (fst (heartbeat t st))"
    using h [of i] conn sock stale unfolding heartbeat_def by blast
  have b: "code = 4000 \<and> reason = ''Connection timeout''"
    if "Close j code reason \<in> set (fst (heartbeat t st))" for j code reason
    using h [of j code reason] that unfolding heartbeat_def by blast
  have c: "Ping i \<notin> set (fst (heartbeat t st))"
    using h [of i] sock stale unfolding heartbeat_def by auto
  have d: "code = 1001 \<and> reason = ''Server shutting down''"
    if "Close j code reason \<in> set (fst (stop_server t' st))" for j code reason
    using that stop_loop_closes [of j code reason t' "connections st" st]
    by (simp add: stop_server_def split: prod.splits)
  have e: "Close i 1001 ''Server shutting down'' \<notin> set (fst (heartbeat t st))"
    using b [of i 1001 "''Server shutting down''"] by auto
  show ?thesis
    using a b c d e by blast
qed

theorem heartbeat_timeout_close_witness:
  "sockets_ok idle_server
   \<and> ''c1'' \<in> set (connections idle_server)
   \<and> map_of (sockets idle_server) ''c1'' = Some (socket_of ''c1'' (Some ''alice'') 1000)
   \<and> 500000 - lastActivity (socket_of ''c1'' (Some ''alice'') 1000)
        > timeout (srv_sessions idle_server) * 1000
   \<and> fst (heartbeat 500000 idle_server)
       = [Send ''c1'' \<lparr>o_type = ''status'', o_data = TimeoutStatus,
                        o_timestamp = Some 500000, o_id = None\<rparr>,
          Close ''c1'' 4000 ''Connection timeout'',
          Ping ''c2'']
   \<and> Close ''c1'' 4000 ''Connection timeout'' \<in> set (fst (heartbeat 500000 idle_server))
   \<and> Close ''c1'' 1001 ''Server shutting down'' \<notin> set (fst (heartbeat 500000 idle_server))
   \<and> fst (stop_server 500000 idle_server)
       = [Send ''c1'' \<lparr>o_type = ''error'', o_data = ErrorData (Num 1001) ''Server shutting down'',
                        o_timestamp = Some 500000, o_id = None\<rparr>,
          Close ''c1'' 1001 ''Server shutting down'',
          Send ''c2'' \<lparr>o_type = ''error'', o_data = ErrorData (Num 1001) ''Server shutting down'',
                        o_timestamp = Some 500000, o_id = None\<rparr>,
          Close ''c2'' 1001 ''Server shutting down'']"
proof -
  have ok: "sockets_ok idle_server"
    by (simp add: sockets_ok_def idle_server_def socket_of_def)
  have conn: "''c1'' \<in> set (connections idle_server)"
    by (simp add: idle_server_def)
  have sock: "map_of (sockets idle_server) ''c1'' = Some (socket_of ''c1'' (Some ''alice'') 1000)"
    by (simp add: idle_server_def)
  have stale: "500000 - lastActivity (socket_of ''c1'' (Some ''alice'') 1000)
        > timeout (srv_sessions idle_server) * 1000"
    by (simp add: idle_server_def demo_server_def socket_of_def)
  have hb: "fst (heartbeat 500000 idle_server)
       = [Send ''c1'' \<lparr>o_type = ''status'', o_data = TimeoutStatus,
                        o_timestamp = Some 500000, o_id = None\<rparr>,
          Close ''c1'' 4000 ''Connection timeout'',
          Ping ''c2'']"
    by (simp add: heartbeat_def idle_server_def demo_server_def socket_of_def Let_def
        heartbeat_socket_def sendFrame_def close_socket_def set_socket_def)
  have sp: "fst (stop_server 500000 idle_server)
       = [Send ''c1'' \<lparr>o_type = ''error'', o_data = ErrorData (Num 1001) ''Server shutting down'',
                        o_timestamp = Some 500000, o_id = None\<rparr>,
          Close ''c1'' 1001 ''Server shutting down'',
          Send ''c2'' \<lparr>o_type = ''error'', o_data = ErrorData (Num 1001) ''Server shutting down'',
                        o_timestamp = Some 500000, o_id = None\<rparr>,
          Close ''c2'' 1001 ''Server shutting down'']"
    by (simp add: stop_server_def idle_server_def demo_server_def socket_of_def Let_def
        stop_socket_def sendError_def sendFrame_def close_socket_def set_socket_def)
  note t = heartbeat_timeout_close [OF ok conn sock stale]
  show ?thesis
    using t [THEN conjunct1] t [THEN conjunct2, THEN conjunct1] ok conn sock stale hb sp
    by blast
qed

end
